theory Spec2Isabelle
  imports Main "HOL-Library.Word"
begin

section \<open>Values: JSON data, dictionaries, serialised text\<close>

text \<open>
  The values that \<^verbatim>\<open>json.loads\<close> produces and that the handlers put into an entry.
  A Python float is carried as its 64-bit pattern: no arithmetic is done on it.
  An object is the list of its items in insertion order, as a Python dict keeps them.
\<close>

datatype json =
    JNull
  | JBool bool
  | JInt int
  | JFloat "64 word"
  | JStr string
  | JArr "json list"
  | JObj "(string \<times> json) list"

type_synonym pydict = "(string \<times> json) list"

text \<open>\<^verbatim>\<open>d[k] = v\<close>: an existing key keeps its position, a new key goes last.\<close>

fun dict_set :: "string \<Rightarrow> 'v \<Rightarrow> (string \<times> 'v) list \<Rightarrow> (string \<times> 'v) list" where
  "dict_set k v [] = [(k, v)]"
| "dict_set k v ((k', v') # d) =
     (if k' = k then (k, v) # d else (k', v') # dict_set k v d)"

text \<open>\<^verbatim>\<open>d.get(k, dflt)\<close>\<close>

definition dict_get :: "(string \<times> 'v) list \<Rightarrow> string \<Rightarrow> 'v \<Rightarrow> 'v" where
  "dict_get d k dflt = (case map_of d k of None \<Rightarrow> dflt | Some v \<Rightarrow> v)"

text \<open>\<^verbatim>\<open>d.update(other)\<close>: the items of \<open>other\<close> are assigned in order.\<close>

definition dict_update :: "(string \<times> 'v) list \<Rightarrow> (string \<times> 'v) list \<Rightarrow> (string \<times> 'v) list" where
  "dict_update d other = fold (\<lambda>(k, v). dict_set k v) other d"

text \<open>\<^verbatim>\<open>d.setdefault(k, v)\<close>\<close>

definition setdefault :: "string \<Rightarrow> 'v \<Rightarrow> (string \<times> 'v) list \<Rightarrow> (string \<times> 'v) list" where
  "setdefault k v d = (case map_of d k of None \<Rightarrow> dict_set k v d | Some _ \<Rightarrow> d)"

text \<open>
  The text \<^verbatim>\<open>json.dumps(entry, ensure_ascii=b)\<close> is represented by the flag and the
  dictionary it serialises: the serialiser is library code, total on JSON values.
\<close>

datatype json_text = Dumps bool pydict

text \<open>Truthiness of an optional string (\<^verbatim>\<open>os.environ.get\<close>): \<^verbatim>\<open>None\<close> and \<^verbatim>\<open>""\<close> are false.\<close>

fun truthy :: "string option \<Rightarrow> bool" where
  "truthy None = False"
| "truthy (Some s) = (s \<noteq> [])"

section \<open>The clock\<close>

text \<open>
  \<^verbatim>\<open>datetime.utcnow()\<close> is an input. A Python datetime has a year of at most four digits
  and two-digit month, day, hour, minute and second, so fixed-width padding is what
  \<^verbatim>\<open>isoformat\<close> prints.
\<close>

record datetime =
  year :: nat
  month :: nat
  day :: nat
  hour :: nat
  minute :: nat
  second :: nat
  microsecond :: nat

definition digit_char :: "nat \<Rightarrow> char" where
  "digit_char d = ''0123456789'' ! (d mod 10)"

primrec pad :: "nat \<Rightarrow> nat \<Rightarrow> string" where
  "pad 0 n = []"
| "pad (Suc w) n = pad w (n div 10) @ [digit_char n]"

definition date_isoformat :: "datetime \<Rightarrow> string" where
  "date_isoformat d = pad 4 (year d) @ ''-'' @ pad 2 (month d) @ ''-'' @ pad 2 (day d)"

definition datetime_isoformat :: "datetime \<Rightarrow> string" where
  "datetime_isoformat d =
     date_isoformat d @ ''T'' @ pad 2 (hour d) @ '':'' @ pad 2 (minute d) @ '':'' @ pad 2 (second d)
     @ (if microsecond d = 0 then [] else ''.'' @ pad 6 (microsecond d))"

section \<open>Process state\<close>

datatype exn =
    ImportError
  | OperationalError
  | OSError
  | ValueError
  | UnicodeDecodeError
  | JSONDecodeError
  | IndexError

datatype pg_conn = PgConn string
datatype sqlite_conn = SqliteConn

text \<open>The twelve non-id columns of table \<^verbatim>\<open>visits\<close>, holding the values bound by the INSERT.\<close>

record row =
  col_ts :: json
  col_method :: json
  col_ip :: json
  col_requestPath :: json
  col_path :: json
  col_referrer :: json
  col_userAgent :: json
  col_event :: json
  col_sessionId :: json
  col_sessionStarted :: json
  col_utm :: json
  col_payload :: json_text

datatype sink = RemoteSink | FileSink | StorageSink

text \<open>
  The module globals (\<open>PG_CONN\<close>, \<open>SQLITE_CONN\<close>, \<open>LOGTAIL_TOKEN\<close>), the contents of the two
  databases, of the log file and of the remote collector, and a history of the sink
  functions entered, each with the entry it was given.
\<close>

record state =
  PG_CONN :: "pg_conn option"
  SQLITE_CONN :: "sqlite_conn option"
  LOGTAIL_TOKEN :: "string option"
  pg_visits :: "row list"
  sqlite_visits :: "row list"
  log_file :: "json_text list"
  logtail :: "json_text list"
  calls :: "(sink \<times> pydict) list"

section \<open>Backend selection (module initialisation)\<close>

text \<open>What the environment does at start-up: \<open>None\<close> where the step succeeds.\<close>

record boot =
  import_psycopg :: "exn option"
  pg_connect :: "exn option"
  pg_create_table :: "exn option"
  sqlite_init :: "exn option"

text \<open>The body of the \<^verbatim>\<open>try\<close> of lines 29-53: the value of \<open>PG_CONN\<close>, or the exception.\<close>

definition pg_init :: "string option \<Rightarrow> boot \<Rightarrow> exn + pg_conn option" where
  "pg_init dsn b =
     (case dsn of
        None \<Rightarrow> Inr None
      | Some s \<Rightarrow>
          if s = [] then Inr None
          else
            (case import_psycopg b of Some e \<Rightarrow> Inl e
             | None \<Rightarrow>
                (case pg_connect b of Some e \<Rightarrow> Inl e
                 | None \<Rightarrow>
                    (case pg_create_table b of Some e \<Rightarrow> Inl e
                     | None \<Rightarrow> Inr (Some (PgConn s))))))"

definition init_sqlite :: "boot \<Rightarrow> exn + sqlite_conn" where
  "init_sqlite b = (case sqlite_init b of Some e \<Rightarrow> Inl e | None \<Rightarrow> Inr SqliteConn)"

text \<open>
  Lines 26-85: \<^verbatim>\<open>except Exception\<close> resets \<open>PG_CONN\<close> to \<^verbatim>\<open>None\<close>; \<^verbatim>\<open>init_sqlite()\<close> runs outside
  any \<^verbatim>\<open>try\<close>, so its exception ends the start-up.
\<close>

definition select_backend :: "string option \<Rightarrow> string option \<Rightarrow> boot \<Rightarrow> exn + state" where
  "select_backend dsn token b =
     (let pg = (case pg_init dsn b of Inl e \<Rightarrow> None | Inr c \<Rightarrow> c);
          st = \<lparr>PG_CONN = pg, SQLITE_CONN = None, LOGTAIL_TOKEN = token,
                pg_visits = [], sqlite_visits = [], log_file = [], logtail = [], calls = []\<rparr>
      in if pg = None then
           (case init_sqlite b of Inl e \<Rightarrow> Inl e
            | Inr c \<Rightarrow> Inr (st\<lparr>SQLITE_CONN := Some c\<rparr>))
         else Inr st)"

section \<open>The three sinks\<close>

text \<open>
  What the environment does to one request: whether \<^verbatim>\<open>urlopen\<close> raises, whether creating,
  opening or writing the log file raises, and whether the database statement (cursor,
  \<^verbatim>\<open>execute\<close>, \<^verbatim>\<open>commit\<close>) raises.
\<close>

record faults =
  urlopen_raises :: bool
  file_raises :: bool
  db_raises :: bool

definition enter :: "sink \<Rightarrow> pydict \<Rightarrow> state \<Rightarrow> state" where
  "enter s entry st = st\<lparr>calls := calls st @ [(s, entry)]\<rparr>"

text \<open>\<^verbatim>\<open>app.py\<close>, lines 88-103: the whole body after the token test is inside \<^verbatim>\<open>try\<close>.\<close>

definition app_send_to_logtail :: "faults \<Rightarrow> pydict \<Rightarrow> state \<Rightarrow> state" where
  "app_send_to_logtail f entry st =
     (let st1 = enter RemoteSink entry st in
      if \<not> truthy (LOGTAIL_TOKEN st1) then st1
      else if urlopen_raises f then st1
      else st1\<lparr>logtail := logtail st1 @ [Dumps True entry]\<rparr>)"

text \<open>
  \<^verbatim>\<open>server.py\<close>, lines 88-104: \<^verbatim>\<open>json.dumps\<close> and the construction of the request stand
  before the \<^verbatim>\<open>try\<close>; on an entry of JSON values neither raises.
\<close>

definition server_send_to_logtail :: "faults \<Rightarrow> pydict \<Rightarrow> state \<Rightarrow> state" where
  "server_send_to_logtail f entry st =
     (let st1 = enter RemoteSink entry st in
      if \<not> truthy (LOGTAIL_TOKEN st1) then st1
      else
        (let data = Dumps True entry in
         if urlopen_raises f then st1
         else st1\<lparr>logtail := logtail st1 @ [data]\<rparr>))"

text \<open>\<^verbatim>\<open>app.py\<close>, lines 106-111: \<^verbatim>\<open>except Exception\<close> swallows the failure.\<close>

definition app_append_file :: "faults \<Rightarrow> pydict \<Rightarrow> state \<Rightarrow> state" where
  "app_append_file f entry st =
     (let st1 = enter FileSink entry st in
      if file_raises f then st1
      else st1\<lparr>log_file := log_file st1 @ [Dumps False entry]\<rparr>)"

text \<open>\<^verbatim>\<open>server.py\<close>, lines 107-110: no \<^verbatim>\<open>try\<close>; the exception leaves the function.\<close>

definition server_append_file :: "faults \<Rightarrow> pydict \<Rightarrow> state \<Rightarrow> exn option \<times> state" where
  "server_append_file f entry st =
     (let st1 = enter FileSink entry st in
      if file_raises f then (Some OSError, st1)
      else (None, st1\<lparr>log_file := log_file st1 @ [Dumps True entry]\<rparr>))"

text \<open>The parameter tuple of the INSERT (the same in both branches and both files).\<close>

definition row_of :: "pydict \<Rightarrow> row" where
  "row_of entry =
     \<lparr>col_ts = dict_get entry ''ts'' (JStr []),
      col_method = dict_get entry ''method'' (JStr []),
      col_ip = dict_get entry ''ip'' (JStr []),
      col_requestPath = dict_get entry ''requestPath'' (JStr []),
      col_path = dict_get entry ''path'' (JStr []),
      col_referrer = dict_get entry ''referrer'' (JStr []),
      col_userAgent = dict_get entry ''userAgent'' (JStr []),
      col_event = dict_get entry ''event'' (JStr []),
      col_sessionId = dict_get entry ''sessionId'' (JStr []),
      col_sessionStarted = dict_get entry ''sessionStarted'' (JInt 0),
      col_utm = dict_get entry ''utm'' (JStr []),
      col_payload = Dumps False entry\<rparr>"

text \<open>
  \<^verbatim>\<open>write_db\<close> (the same text in both files): everything is inside \<^verbatim>\<open>try\<close>. With both
  connections \<^verbatim>\<open>None\<close> the \<^verbatim>\<open>else\<close> branch raises AttributeError, which is swallowed too.
\<close>

definition write_db :: "faults \<Rightarrow> pydict \<Rightarrow> state \<Rightarrow> state" where
  "write_db f entry st =
     (let st1 = enter StorageSink entry st in
      case PG_CONN st1 of
        Some c \<Rightarrow>
          if db_raises f then st1
          else st1\<lparr>pg_visits := pg_visits st1 @ [row_of entry]\<rparr>
      | None \<Rightarrow>
          (case SQLITE_CONN st1 of
             None \<Rightarrow> st1
           | Some c \<Rightarrow>
               if db_raises f then st1
               else st1\<lparr>sqlite_visits := sqlite_visits st1 @ [row_of entry]\<rparr>))"

text \<open>\<^verbatim>\<open>app.py\<close>, lines 220-223.\<close>

definition persist :: "faults \<Rightarrow> pydict \<Rightarrow> state \<Rightarrow> state" where
  "persist f entry st = write_db f entry (app_append_file f entry (app_send_to_logtail f entry st))"

text \<open>
  \<^verbatim>\<open>server.py\<close>, lines 247-252 and 290-294: the three calls and the 204 response, written
  out in both handlers.
\<close>

datatype response =
    Response nat
  | SendError nat string
  | PlainText nat string
  | JsonResponse nat "(string \<times> nat) list"
  | StaticFile

definition server_sinks :: "faults \<Rightarrow> pydict \<Rightarrow> state \<Rightarrow> (exn + response) \<times> state" where
  "server_sinks f entry st =
     (case server_append_file f entry (server_send_to_logtail f entry st) of
        (Some e, st2) \<Rightarrow> (Inl e, st2)
      | (None, st2) \<Rightarrow> (Inr (Response 204), write_db f entry st2))"

section \<open>Statistics\<close>

text \<open>
  The counting queries over the rows as they were bound. \<^verbatim>\<open>event='visit'\<close> holds for the
  text \<^verbatim>\<open>visit\<close> only; \<^verbatim>\<open>ts LIKE today%\<close> holds for a text that starts with the date (the
  date has digits and hyphens only, so no wildcard and no letter case is involved);
  \<^verbatim>\<open>COUNT(DISTINCT sessionId)\<close> skips NULL.
\<close>

definition count_where :: "(row \<Rightarrow> bool) \<Rightarrow> row list \<Rightarrow> nat" where
  "count_where p rows = length (filter p rows)"

definition count_distinct :: "(row \<Rightarrow> json) \<Rightarrow> row list \<Rightarrow> nat" where
  "count_distinct col rows = length (remdups (filter (\<lambda>v. v \<noteq> JNull) (map col rows)))"

definition event_is :: "string \<Rightarrow> row \<Rightarrow> bool" where
  "event_is kind r = (col_event r = JStr kind)"

definition like_prefix :: "string \<Rightarrow> json \<Rightarrow> bool" where
  "like_prefix p v = (case v of JStr s \<Rightarrow> take (length p) s = p | _ \<Rightarrow> False)"

text \<open>
  The environment of one call of \<^verbatim>\<open>get_stats\<close>: the clock; how many of the seven queries
  complete before a statement of the \<^verbatim>\<open>try\<close> block raises (\<open>None\<close>: none raises; \<open>Some 0\<close>: the
  cursor or the first query raises); and, for the networked variant, the engine's
  verdict on \<^verbatim>\<open>ts::date = current_date\<close> for a row inserted with \<^verbatim>\<open>to_timestamp(v)\<close>.
\<close>

record stats_env =
  utcnow :: datetime
  completed :: "nat option"
  pg_is_today :: "json \<Rightarrow> bool"

definition sqlite_queries :: "string \<Rightarrow> row list \<Rightarrow> (string \<times> nat) list" where
  "sqlite_queries today rows =
     [(''totalEvents'', length rows),
      (''visits'', count_where (event_is ''visit'') rows),
      (''clicks'', count_where (event_is ''click'') rows),
      (''exits'', count_where (event_is ''exit'') rows),
      (''uniqueSessions'', count_distinct col_sessionId rows),
      (''visitsToday'', count_where (\<lambda>r. event_is ''visit'' r \<and> like_prefix today (col_ts r)) rows),
      (''clicksToday'', count_where (\<lambda>r. event_is ''click'' r \<and> like_prefix today (col_ts r)) rows)]"

definition pg_queries :: "(json \<Rightarrow> bool) \<Rightarrow> row list \<Rightarrow> (string \<times> nat) list" where
  "pg_queries is_today rows =
     [(''totalEvents'', length rows),
      (''visits'', count_where (event_is ''visit'') rows),
      (''clicks'', count_where (event_is ''click'') rows),
      (''exits'', count_where (event_is ''exit'') rows),
      (''uniqueSessions'', count_distinct col_sessionId rows),
      (''visitsToday'', count_where (\<lambda>r. event_is ''visit'' r \<and> is_today (col_ts r)) rows),
      (''clicksToday'', count_where (\<lambda>r. event_is ''click'' r \<and> is_today (col_ts r)) rows)]"

definition zero_stats :: "(string \<times> nat) list" where
  "zero_stats =
     [(''totalEvents'', 0), (''visits'', 0), (''clicks'', 0), (''exits'', 0),
      (''uniqueSessions'', 0), (''visitsToday'', 0), (''clicksToday'', 0)]"

text \<open>
  \<^verbatim>\<open>get_stats\<close> (the same text in both files): each query that completes assigns its
  counter; the first statement that raises ends the \<^verbatim>\<open>try\<close> block, the exception is
  printed and \<open>stats\<close> is returned as it stands. With both connections \<^verbatim>\<open>None\<close> the
  \<^verbatim>\<open>else\<close> branch raises at once.
\<close>

definition get_stats :: "stats_env \<Rightarrow> state \<Rightarrow> (string \<times> nat) list" where
  "get_stats env st =
     (let today = date_isoformat (utcnow env);
          stats = zero_stats;
          queries =
            (case PG_CONN st of
               Some c \<Rightarrow> pg_queries (pg_is_today env) (pg_visits st)
             | None \<Rightarrow>
                 (case SQLITE_CONN st of
                    None \<Rightarrow> []
                  | Some c \<Rightarrow> sqlite_queries today (sqlite_visits st)));
          ran = (case completed env of None \<Rightarrow> queries | Some k \<Rightarrow> take k queries)
      in dict_update stats ran)"

section \<open>Requests\<close>

text \<open>
  The bytes of a request body, by what the library makes of them: no byte at all, bytes
  that are not UTF-8, text that is not JSON, or a JSON document.
\<close>

datatype body = EmptyBody | InvalidUtf8 | InvalidJson | JsonBody json

subsection \<open>\<^verbatim>\<open>app.py\<close>\<close>

record app_request =
  app_body :: body
  app_client :: "string option"
  app_url_path :: string
  app_forwarded_for :: "string option"
  app_query :: "(string \<times> string) list"

text \<open>Lines 241-244: any exception of \<^verbatim>\<open>req.json()\<close> gives the empty dict.\<close>

definition app_payload :: "body \<Rightarrow> json" where
  "app_payload b = (case b of JsonBody v \<Rightarrow> v | _ \<Rightarrow> JObj [])"

text \<open>Lines 245-255: the entry of a POST.\<close>

definition visit_post_entry :: "datetime \<Rightarrow> app_request \<Rightarrow> pydict" where
  "visit_post_entry now rq =
     (let payload = app_payload (app_body rq);
          entry = [(''ts'', JStr (datetime_isoformat now @ ''Z'')),
                   (''method'', JStr ''POST''),
                   (''ip'', JStr (case app_client rq of Some host \<Rightarrow> host | None \<Rightarrow> [])),
                   (''requestPath'', JStr (app_url_path rq))];
          entry = (case payload of JObj items \<Rightarrow> dict_update entry items | _ \<Rightarrow> entry)
      in setdefault ''userAgent'' (JStr [])
           (setdefault ''referrer'' (JStr []) (setdefault ''path'' (JStr []) entry)))"

definition visit_post :: "datetime \<Rightarrow> faults \<Rightarrow> app_request \<Rightarrow> state \<Rightarrow> response \<times> state" where
  "visit_post now f rq st = (Response 204, persist f (visit_post_entry now rq) st)"

text \<open>Lines 261-273: the entry of a GET; a query parameter that is absent is \<^verbatim>\<open>""\<close>.\<close>

definition visit_get_entry :: "datetime \<Rightarrow> app_request \<Rightarrow> pydict" where
  "visit_get_entry now rq =
     [(''ts'', JStr (datetime_isoformat now @ ''Z'')),
      (''method'', JStr ''GET''),
      (''path'', JStr (dict_get (app_query rq) ''path'' [])),
      (''referrer'', JStr (dict_get (app_query rq) ''referrer'' [])),
      (''userAgent'', JStr (dict_get (app_query rq) ''ua'' [])),
      (''event'', JStr (dict_get (app_query rq) ''event'' [])),
      (''sessionId'', JStr (dict_get (app_query rq) ''sid'' [])),
      (''utm'', JStr (dict_get (app_query rq) ''utm'' [])),
      (''ip'', JStr (case app_client rq of Some host \<Rightarrow> host | None \<Rightarrow> [])),
      (''requestPath'', JStr (app_url_path rq))]"

definition visit_get :: "datetime \<Rightarrow> faults \<Rightarrow> app_request \<Rightarrow> state \<Rightarrow> response \<times> state" where
  "visit_get now f rq st = (Response 204, persist f (visit_get_entry now rq) st)"

subsection \<open>\<^verbatim>\<open>server.py\<close>\<close>

text \<open>
  The \<^verbatim>\<open>Content-Length\<close> header: absent, not the text of an integer, or a length.
  \<open>rfile\<close> is what \<^verbatim>\<open>rfile.read(length)\<close> returns. A value of \<^verbatim>\<open>parse_qs\<close> is a list that is
  never empty: its first element and the rest.
\<close>

datatype content_length = NoLength | BadLength | Length nat

record server_request =
  req_path :: string
  req_query :: "(string \<times> (string \<times> string list)) list"
  content_length :: content_length
  rfile :: body
  x_forwarded_for :: "string option"
  client_address :: string

text \<open>\<^verbatim>\<open>s.split(sep)\<close> for a one-character separator.\<close>

fun split_on :: "char \<Rightarrow> string \<Rightarrow> string list" where
  "split_on sep [] = [[]]"
| "split_on sep (c # cs) =
     (if c = sep then [] # split_on sep cs
      else (case split_on sep cs of [] \<Rightarrow> [[c]] | t # ts \<Rightarrow> (c # t) # ts))"

text \<open>
  \<^verbatim>\<open>str.isspace\<close> on the code points below 256 (a header is decoded as ISO-8859-1), and
  \<^verbatim>\<open>s.strip()\<close>.
\<close>

definition py_isspace :: "char \<Rightarrow> bool" where
  "py_isspace c = (of_char c \<in> {9, 10, 11, 12, 13, 28, 29, 30, 31, 32, 133, 160 :: nat})"

definition strip :: "string \<Rightarrow> string" where
  "strip s = rev (dropWhile py_isspace (rev (dropWhile py_isspace s)))"

text \<open>
  Lines 234 and 287:
  \<^verbatim>\<open>self.headers.get("x-forwarded-for", "").split(",")[0].strip() or self.client_address[0]\<close>
\<close>

definition client_ip :: "string option \<Rightarrow> string \<Rightarrow> exn + string" where
  "client_ip xff peer =
     (case split_on CHR '','' (case xff of None \<Rightarrow> [] | Some h \<Rightarrow> h) of
        [] \<Rightarrow> Inl IndexError
      | t # ts \<Rightarrow> Inr (if strip t = [] then peer else strip t))"

text \<open>Line 226: \<^verbatim>\<open>int(self.headers.get("Content-Length", 0))\<close>\<close>

definition read_length :: "content_length \<Rightarrow> exn + nat" where
  "read_length cl = (case cl of NoLength \<Rightarrow> Inr 0 | BadLength \<Rightarrow> Inl ValueError | Length n \<Rightarrow> Inr n)"

text \<open>Line 229: \<^verbatim>\<open>json.loads(raw.decode("utf-8") or "{}")\<close>\<close>

definition server_loads :: "body \<Rightarrow> exn + json" where
  "server_loads raw =
     (case raw of
        EmptyBody \<Rightarrow> Inr (JObj [])
      | InvalidUtf8 \<Rightarrow> Inl UnicodeDecodeError
      | InvalidJson \<Rightarrow> Inl JSONDecodeError
      | JsonBody v \<Rightarrow> Inr v)"

text \<open>Lines 235-245: the entry of a POST, from the parsed payload and the resolved address.\<close>

definition do_POST_entry :: "datetime \<Rightarrow> server_request \<Rightarrow> json \<Rightarrow> string \<Rightarrow> pydict" where
  "do_POST_entry now rq payload ip =
     (let entry = [(''ts'', JStr (datetime_isoformat now @ ''Z'')),
                   (''method'', JStr ''POST''),
                   (''ip'', JStr ip),
                   (''requestPath'', JStr (req_path rq))];
          entry = (case payload of JObj items \<Rightarrow> dict_update entry items | _ \<Rightarrow> entry)
      in setdefault ''userAgent'' (JStr [])
           (setdefault ''referrer'' (JStr []) (setdefault ''path'' (JStr []) entry)))"

text \<open>Lines 220-252.\<close>

definition do_POST :: "datetime \<Rightarrow> faults \<Rightarrow> server_request \<Rightarrow> state \<Rightarrow> (exn + response) \<times> state" where
  "do_POST now f rq st =
     (if req_path rq \<noteq> ''/api/log-visit'' \<and> req_path rq \<noteq> ''/api/visit''
      then (Inr (SendError 404 ''Not found''), st)
      else
        (case read_length (content_length rq) of
           Inl e \<Rightarrow> (Inl e, st)
         | Inr len \<Rightarrow>
            (let raw = (if len \<noteq> 0 then rfile rq else EmptyBody) in
             case server_loads raw of
               Inl e \<Rightarrow>
                 if e = JSONDecodeError then (Inr (SendError 400 ''Invalid JSON''), st)
                 else (Inl e, st)
             | Inr payload \<Rightarrow>
                 (case client_ip (x_forwarded_for rq) (client_address rq) of
                    Inl e \<Rightarrow> (Inl e, st)
                  | Inr ip \<Rightarrow> server_sinks f (do_POST_entry now rq payload ip) st))))"

text \<open>Lines 278-289: the entry of a GET.\<close>

definition do_GET_entry :: "datetime \<Rightarrow> server_request \<Rightarrow> string \<Rightarrow> pydict" where
  "do_GET_entry now rq ip =
     [(''ts'', JStr (datetime_isoformat now @ ''Z'')),
      (''method'', JStr ''GET''),
      (''path'', JStr (fst (dict_get (req_query rq) ''path'' ([], [])))),
      (''referrer'', JStr (fst (dict_get (req_query rq) ''referrer'' ([], [])))),
      (''userAgent'', JStr (fst (dict_get (req_query rq) ''ua'' ([], [])))),
      (''event'', JStr (fst (dict_get (req_query rq) ''event'' ([], [])))),
      (''sessionId'', JStr (fst (dict_get (req_query rq) ''sid'' ([], [])))),
      (''utm'', JStr (fst (dict_get (req_query rq) ''utm'' ([], [])))),
      (''ip'', JStr ip),
      (''requestPath'', JStr (req_path rq))]"

text \<open>Lines 254-297; the clock of the request is that of the statistics environment.\<close>

definition do_GET :: "stats_env \<Rightarrow> faults \<Rightarrow> server_request \<Rightarrow> state \<Rightarrow> (exn + response) \<times> state" where
  "do_GET env f rq st =
     (if req_path rq = ''/health'' then (Inr (PlainText 200 ''ok''), st)
      else if req_path rq = ''/api/stats'' then (Inr (JsonResponse 200 (get_stats env st)), st)
      else if req_path rq = ''/favicon.ico'' then (Inr (Response 204), st)
      else if req_path rq = ''/api/log-visit'' \<or> req_path rq = ''/api/visit'' then
        (case client_ip (x_forwarded_for rq) (client_address rq) of
           Inl e \<Rightarrow> (Inl e, st)
         | Inr ip \<Rightarrow> server_sinks f (do_GET_entry (utcnow env) rq ip) st)
      else (Inr StaticFile, st))"

section \<open>Runs of the process\<close>

text \<open>
  One request to one of the handlers, with what the environment does to it, and the
  state after a sequence of them. \<^verbatim>\<open>/api/stats\<close> only reads.
\<close>

datatype request =
    AppPost datetime faults app_request
  | AppGet datetime faults app_request
  | AppStats stats_env
  | ServerPost datetime faults server_request
  | ServerGet stats_env faults server_request

fun handle :: "request \<Rightarrow> state \<Rightarrow> state" where
  "handle (AppPost now f rq) st = snd (visit_post now f rq st)"
| "handle (AppGet now f rq) st = snd (visit_get now f rq st)"
| "handle (AppStats env) st = st"
| "handle (ServerPost now f rq) st = snd (do_POST now f rq st)"
| "handle (ServerGet env f rq) st = snd (do_GET env f rq st)"

definition run :: "request list \<Rightarrow> state \<Rightarrow> state" where
  "run rs st = fold handle rs st"

section \<open>Vocabulary of the properties\<close>

text \<open>The value a JSON-object payload supplies for a key, if any (the last item wins).\<close>

definition supplied :: "json \<Rightarrow> string \<Rightarrow> json option" where
  "supplied payload k = (case payload of JObj items \<Rightarrow> map_of (rev items) k | _ \<Rightarrow> None)"

definition is_object :: "json \<Rightarrow> bool" where
  "is_object v = (case v of JObj items \<Rightarrow> True | _ \<Rightarrow> False)"

text \<open>A row as the list of its eleven value columns by name.\<close>

definition row_columns :: "row \<Rightarrow> (string \<times> json) list" where
  "row_columns r =
     [(''ts'', col_ts r), (''method'', col_method r), (''ip'', col_ip r),
      (''requestPath'', col_requestPath r), (''path'', col_path r),
      (''referrer'', col_referrer r), (''userAgent'', col_userAgent r),
      (''event'', col_event r), (''sessionId'', col_sessionId r),
      (''sessionStarted'', col_sessionStarted r), (''utm'', col_utm r)]"

definition column_default :: "string \<Rightarrow> json" where
  "column_default k = (if k = ''sessionStarted'' then JInt 0 else JStr [])"

text \<open>The date part of a timestamp text: its first ten characters.\<close>

definition ts_date :: "row \<Rightarrow> string option" where
  "ts_date r = (case col_ts r of JStr s \<Rightarrow> Some (take 10 s) | _ \<Rightarrow> None)"

text \<open>The forwarding header's first comma-separated token, trimmed; the peer if that is empty.\<close>

definition first_forwarded :: "string option \<Rightarrow> string \<Rightarrow> string" where
  "first_forwarded xff peer =
     (let t = strip (takeWhile (\<lambda>c. c \<noteq> CHR '','') (case xff of None \<Rightarrow> [] | Some h \<Rightarrow> h))
      in if t = [] then peer else t)"

section \<open>Concrete inputs\<close>

definition example_now :: datetime where
  "example_now =
     \<lparr>year = 2024, month = 5, day = 7, hour = 9, minute = 3, second = 1, microsecond = 42\<rparr>"

definition no_faults :: faults where
  "no_faults = \<lparr>urlopen_raises = False, file_raises = False, db_raises = False\<rparr>"

definition file_fault :: faults where
  "file_fault = \<lparr>urlopen_raises = False, file_raises = True, db_raises = False\<rparr>"

definition embedded_state :: state where
  "embedded_state =
     \<lparr>PG_CONN = None, SQLITE_CONN = Some SqliteConn, LOGTAIL_TOKEN = Some ''token'',
      pg_visits = [], sqlite_visits = [], log_file = [], logtail = [], calls = []\<rparr>"

definition example_post :: server_request where
  "example_post =
     \<lparr>req_path = ''/api/visit'', req_query = [], content_length = Length 2,
      rfile = JsonBody (JObj []), x_forwarded_for = Some ''1.2.3.4, 5.6.7.8'',
      client_address = ''10.0.0.1''\<rparr>"

definition example_env :: stats_env where
  "example_env = \<lparr>utcnow = example_now, completed = None, pg_is_today = (\<lambda>v. False)\<rparr>"

definition example_get :: server_request where
  "example_get =
     \<lparr>req_path = ''/api/visit'', req_query = [(''event'', (''visit'', []))],
      content_length = NoLength, rfile = EmptyBody, x_forwarded_for = None,
      client_address = ''10.0.0.1''\<rparr>"

definition example_app_post :: app_request where
  "example_app_post =
     \<lparr>app_body = JsonBody (JObj []), app_client = Some ''10.0.0.1'',
      app_url_path = ''/api/visit'', app_forwarded_for = Some ''1.2.3.4, 5.6.7.8'',
      app_query = []\<rparr>"

definition unreachable_pg :: boot where
  "unreachable_pg =
     \<lparr>import_psycopg = None, pg_connect = Some OperationalError, pg_create_table = None,
      sqlite_init = None\<rparr>"

definition stats_keys :: "string list" where
  "stats_keys = [''totalEvents'', ''visits'', ''clicks'', ''exits'', ''uniqueSessions'',
     ''visitsToday'', ''clicksToday'']"

definition is_json_object :: "body \<Rightarrow> bool" where
  "is_json_object b = (case b of JsonBody v \<Rightarrow> is_object v | _ \<Rightarrow> False)"

definition forged_payload :: json where
  "forged_payload =
     JObj [(''ts'', JStr ''1999-01-01T00:00:00Z''), (''method'', JStr ''GET''),
           (''requestPath'', JStr ''/elsewhere'')]"

definition forged_app_post :: app_request where
  "forged_app_post =
     \<lparr>app_body = JsonBody forged_payload, app_client = Some ''10.0.0.1'',
      app_url_path = ''/api/visit'', app_forwarded_for = None, app_query = []\<rparr>"

definition post_defaults :: "string \<Rightarrow> string \<Rightarrow> string \<Rightarrow> string \<Rightarrow> pydict" where
  "post_defaults ts meth ip rpath =
     [(''ts'', JStr ts), (''method'', JStr meth), (''ip'', JStr ip), (''requestPath'', JStr rpath),
      (''path'', JStr []), (''referrer'', JStr []), (''userAgent'', JStr [])]"

definition app_peer :: "app_request \<Rightarrow> string" where
  "app_peer rq = (case app_client rq of Some host \<Rightarrow> host | None \<Rightarrow> [])"

definition column_names :: "string list" where
  "column_names = [''ts'', ''method'', ''ip'', ''requestPath'', ''path'', ''referrer'',
     ''userAgent'', ''event'', ''sessionId'', ''sessionStarted'', ''utm'']"

definition nothing_available :: boot where
  "nothing_available =
     \<lparr>import_psycopg = Some ImportError, pg_connect = None, pg_create_table = None,
      sqlite_init = Some OperationalError\<rparr>"

text \<open>The six caller fields of a GET entry, each with the query parameter it is read from.\<close>

definition get_fields :: "(string \<times> string) list" where
  "get_fields =
     [(''path'', ''path''), (''referrer'', ''referrer''), (''userAgent'', ''ua''),
      (''event'', ''event''), (''sessionId'', ''sid''), (''utm'', ''utm'')]"

definition bare_app_get :: app_request where
  "bare_app_get =
     \<lparr>app_body = EmptyBody, app_client = Some ''10.0.0.1'', app_url_path = ''/api/visit'',
      app_forwarded_for = None, app_query = [(''sid'', ''s1'')]\<rparr>"

text \<open>Six GET events of two sessions: a visit and an exit on the day of the clock, the rest the day before.\<close>

definition get_request :: "string \<Rightarrow> string \<Rightarrow> app_request" where
  "get_request ev sid =
     \<lparr>app_body = EmptyBody, app_client = Some ''10.0.0.1'', app_url_path = ''/api/visit'',
      app_forwarded_for = None, app_query = [(''event'', ev), (''sid'', sid)]\<rparr>"

definition day_before :: datetime where
  "day_before = example_now\<lparr>day := 6\<rparr>"

definition six_events :: "request list" where
  "six_events =
     [AppGet example_now no_faults (get_request ''visit'' ''s1''),
      AppGet day_before no_faults (get_request ''visit'' ''s1''),
      AppGet day_before no_faults (get_request ''visit'' ''s2''),
      AppGet day_before no_faults (get_request ''click'' ''s1''),
      AppGet day_before no_faults (get_request ''click'' ''s2''),
      AppGet example_now no_faults (get_request ''exit'' ''s2'')]"


section \<open>Dictionaries and header parsing\<close>

lemma map_of_dict_set: "map_of (dict_set k v d) = (map_of d)(k \<mapsto> v)"
  by (induction d) (auto simp: fun_eq_iff)

lemma map_of_dict_update: "map_of (dict_update d other) = map_of d ++ map_of (rev other)"
  unfolding dict_update_def
proof (induction other arbitrary: d)
  case Nil
  then show ?case by simp
next
  case (Cons p other)
  obtain k v where p: "p = (k, v)" by (cases p)
  show ?case
    by (simp add: p Cons.IH map_of_dict_set fun_eq_iff map_add_def split: option.splits)
qed

lemma map_of_setdefault:
  "map_of (setdefault k v d) =
     (case map_of d k of None \<Rightarrow> (map_of d)(k \<mapsto> v) | Some w \<Rightarrow> map_of d)"
  by (simp add: setdefault_def map_of_dict_set split: option.splits)

lemma split_on_not_Nil: "split_on sep s \<noteq> []"
  by (induction s) (auto split: list.splits)

lemma hd_split_on: "hd (split_on sep s) = takeWhile (\<lambda>c. c \<noteq> sep) s"
  by (induction s) (auto split: list.splits simp: split_on_not_Nil)

text \<open>The index \<^verbatim>\<open>[0]\<close> after \<^verbatim>\<open>split\<close> never raises.\<close>

lemma client_ip_first_forwarded: "client_ip xff peer = Inr (first_forwarded xff peer)"
proof -
  let ?h = "case xff of None \<Rightarrow> [] | Some h \<Rightarrow> h"
  obtain t ts where sp: "split_on CHR '','' ?h = t # ts"
    using split_on_not_Nil [of "CHR '',''" ?h] by (cases "split_on CHR '','' ?h") auto
  have "t = takeWhile (\<lambda>c. c \<noteq> CHR '','') ?h"
    using hd_split_on [of "CHR '',''" ?h] sp by simp
  then show ?thesis
    by (simp add: client_ip_def first_forwarded_def sp Let_def)
qed

section \<open>The ingestion pipeline\<close>

text \<open>
  C1 (fan-out with isolated failures), on \<^verbatim>\<open>server.py\<close>: when the log file cannot be
  written, \<^verbatim>\<open>append_file\<close> raises out of the handler. For the POST and the GET below the
  handler ends with the exception instead of the 204 response, the storage insert is
  never entered and no row is stored; only the remote and the file sink were entered.
\<close>

theorem server_file_failure_skips_storage:
  "fst (do_POST example_now file_fault example_post embedded_state) = Inl OSError
   \<and> map fst (calls (snd (do_POST example_now file_fault example_post embedded_state)))
       = [RemoteSink, FileSink]
   \<and> sqlite_visits (snd (do_POST example_now file_fault example_post embedded_state)) = []
   \<and> fst (do_GET example_env file_fault example_get embedded_state) = Inl OSError
   \<and> map fst (calls (snd (do_GET example_env file_fault example_get embedded_state)))
       = [RemoteSink, FileSink]
   \<and> sqlite_visits (snd (do_GET example_env file_fault example_get embedded_state)) = []"
  by (simp add: do_POST_def do_GET_def example_post_def example_get_def read_length_def
      server_loads_def client_ip_first_forwarded server_sinks_def server_append_file_def
      server_send_to_logtail_def enter_def file_fault_def embedded_state_def Let_def)

section \<open>Backend selection\<close>

text \<open>No sink and no handler assigns the two connection globals.\<close>

lemma enter_conns [simp]:
  "PG_CONN (enter s e st) = PG_CONN st" "SQLITE_CONN (enter s e st) = SQLITE_CONN st"
  "LOGTAIL_TOKEN (enter s e st) = LOGTAIL_TOKEN st"
  by (simp_all add: enter_def)

lemma write_db_conns:
  "PG_CONN (write_db f e st) = PG_CONN st \<and> SQLITE_CONN (write_db f e st) = SQLITE_CONN st"
  by (simp add: write_db_def Let_def split: option.splits)

lemma app_send_conns:
  "PG_CONN (app_send_to_logtail f e st) = PG_CONN st \<and>
   SQLITE_CONN (app_send_to_logtail f e st) = SQLITE_CONN st"
  by (simp add: app_send_to_logtail_def Let_def)

lemma server_send_conns:
  "PG_CONN (server_send_to_logtail f e st) = PG_CONN st \<and>
   SQLITE_CONN (server_send_to_logtail f e st) = SQLITE_CONN st"
  by (simp add: server_send_to_logtail_def Let_def)

lemma app_append_conns:
  "PG_CONN (app_append_file f e st) = PG_CONN st \<and>
   SQLITE_CONN (app_append_file f e st) = SQLITE_CONN st"
  by (simp add: app_append_file_def Let_def)

lemma server_append_conns:
  "PG_CONN (snd (server_append_file f e st)) = PG_CONN st \<and>
   SQLITE_CONN (snd (server_append_file f e st)) = SQLITE_CONN st"
  by (simp add: server_append_file_def Let_def)

lemma persist_conns:
  "PG_CONN (persist f e st) = PG_CONN st \<and> SQLITE_CONN (persist f e st) = SQLITE_CONN st"
  by (simp add: persist_def write_db_conns app_append_conns app_send_conns)

lemma server_sinks_conns:
  "PG_CONN (snd (server_sinks f e st)) = PG_CONN st \<and>
   SQLITE_CONN (snd (server_sinks f e st)) = SQLITE_CONN st"
proof (cases "server_append_file f e (server_send_to_logtail f e st)")
  case (Pair r st2)
  have "PG_CONN st2 = PG_CONN st \<and> SQLITE_CONN st2 = SQLITE_CONN st"
    using server_append_conns [of f e "server_send_to_logtail f e st"] Pair
    by (simp add: server_send_conns)
  then show ?thesis
    by (cases r) (simp_all add: server_sinks_def Pair write_db_conns)
qed

lemma do_POST_conns:
  "PG_CONN (snd (do_POST now f rq st)) = PG_CONN st \<and>
   SQLITE_CONN (snd (do_POST now f rq st)) = SQLITE_CONN st"
  by (simp add: do_POST_def Let_def server_sinks_conns split: sum.splits)

lemma do_GET_conns:
  "PG_CONN (snd (do_GET env f rq st)) = PG_CONN st \<and>
   SQLITE_CONN (snd (do_GET env f rq st)) = SQLITE_CONN st"
  by (simp add: do_GET_def server_sinks_conns split: sum.splits)

lemma handle_conns:
  "PG_CONN (handle r st) = PG_CONN st \<and> SQLITE_CONN (handle r st) = SQLITE_CONN st"
  by (cases r) (simp_all add: visit_post_def visit_get_def persist_conns do_POST_conns do_GET_conns)

lemma run_conns:
  "PG_CONN (run rs st) = PG_CONN st \<and> SQLITE_CONN (run rs st) = SQLITE_CONN st"
  unfolding run_def by (induction rs arbitrary: st) (simp_all add: handle_conns)

lemma select_backend_one:
  assumes "select_backend dsn token b = Inr st"
  shows "(PG_CONN st = None) \<noteq> (SQLITE_CONN st = None)"
  using assms
  by (auto simp: select_backend_def Let_def split: sum.splits if_splits option.splits)


text \<open>
  C4 as stated fails: the fallback itself can be fatal. \<^verbatim>\<open>init_sqlite()\<close> is called outside
  any \<^verbatim>\<open>try\<close> (lines 84-85), so when the driver is missing and the embedded database cannot
  be opened either, backend selection ends with the exception of \<^verbatim>\<open>init_sqlite()\<close> and no
  backend is active.
\<close>

theorem fallback_is_fatal_when_embedded_fails:
  "select_backend (Some ''postgresql://db/visits'') (Some ''token'') nothing_available
     = Inl OperationalError"
  by (simp add: select_backend_def pg_init_def init_sqlite_def nothing_available_def)

text \<open>
  C4 (fallback and single active backend), as the code has it. When a connection string
  is configured and the driver import, the connection or the table creation raises, that
  exception is swallowed, \<open>PG_CONN\<close> is reset to \<^verbatim>\<open>None\<close> and the start-up continues with
  \<^verbatim>\<open>init_sqlite()\<close>, whose outcome is the outcome of backend selection: the embedded
  connection alone is set if it succeeds, and its exception ends the start-up if it
  raises. Whenever selection returns, exactly one of the two connections is set, and no
  sequence of requests to any handler changes either of them.
\<close>

theorem backend_selection:
  "(truthy dsn \<and> (import_psycopg b \<noteq> None \<or> pg_connect b \<noteq> None \<or> pg_create_table b \<noteq> None)
      \<longrightarrow> select_backend dsn token b =
          (case sqlite_init b of
             Some e \<Rightarrow> Inl e
           | None \<Rightarrow>
               Inr \<lparr>PG_CONN = None, SQLITE_CONN = Some SqliteConn, LOGTAIL_TOKEN = token,
                    pg_visits = [], sqlite_visits = [], log_file = [], logtail = [], calls = []\<rparr>))
   \<and> (select_backend dsn token b = Inr st
      \<longrightarrow> (PG_CONN st = None) \<noteq> (SQLITE_CONN st = None)
          \<and> PG_CONN (run rs st) = PG_CONN st \<and> SQLITE_CONN (run rs st) = SQLITE_CONN st)"
proof (intro conjI impI)
  assume h: "truthy dsn \<and> (import_psycopg b \<noteq> None \<or> pg_connect b \<noteq> None \<or> pg_create_table b \<noteq> None)"
  then obtain s where dsn: "dsn = Some s" "s \<noteq> []" by (cases dsn) auto
  from h have "\<exists>e. pg_init dsn b = Inl e"
    by (auto simp: pg_init_def dsn split: option.splits)
  then obtain e where "pg_init dsn b = Inl e" ..
  then show "select_backend dsn token b =
          (case sqlite_init b of
             Some e \<Rightarrow> Inl e
           | None \<Rightarrow>
               Inr \<lparr>PG_CONN = None, SQLITE_CONN = Some SqliteConn, LOGTAIL_TOKEN = token,
                    pg_visits = [], sqlite_visits = [], log_file = [], logtail = [], calls = []\<rparr>)"
    by (simp add: select_backend_def init_sqlite_def split: option.splits)
next
  assume "select_backend dsn token b = Inr st"
  then show "(PG_CONN st = None) \<noteq> (SQLITE_CONN st = None)" by (rule select_backend_one)
next
  show "PG_CONN (run rs st) = PG_CONN st" by (simp add: run_conns)
next
  show "SQLITE_CONN (run rs st) = SQLITE_CONN st" by (simp add: run_conns)
qed


theorem backend_selection_witness:
  "select_backend (Some ''postgresql://db/visits'') (Some ''token'') unreachable_pg
     = Inr embedded_state
   \<and> (PG_CONN embedded_state = None) \<noteq> (SQLITE_CONN embedded_state = None)
   \<and> PG_CONN (run [ServerPost example_now no_faults example_post, AppStats example_env]
                embedded_state) = None
   \<and> SQLITE_CONN (run [ServerPost example_now no_faults example_post, AppStats example_env]
                embedded_state) = Some SqliteConn
   \<and> select_backend (Some ''postgresql://db/visits'') (Some ''token'')
        (unreachable_pg\<lparr>sqlite_init := Some OSError\<rparr>) = Inl OSError"
  using backend_selection [of "Some ''postgresql://db/visits''" unreachable_pg "Some ''token''"
      embedded_state "[ServerPost example_now no_faults example_post, AppStats example_env]"]
    backend_selection [of "Some ''postgresql://db/visits''"
      "unreachable_pg\<lparr>sqlite_init := Some OSError\<rparr>" "Some ''token''"]
  by (simp add: unreachable_pg_def embedded_state_def)

section \<open>Statistics\<close>

lemma keys_dict_set: "map_of d k \<noteq> None \<Longrightarrow> map fst (dict_set k v d) = map fst d"
  by (induction d) auto

lemma keys_dict_update:
  "set (map fst other) \<subseteq> set (map fst d) \<Longrightarrow> map fst (dict_update d other) = map fst d"
  unfolding dict_update_def
proof (induction other arbitrary: d)
  case Nil
  then show ?case by simp
next
  case (Cons p other)
  obtain k v where p: "p = (k, v)" by (cases p)
  from Cons.prems have k: "k \<in> fst ` set d" by (simp add: p)
  then have "map_of d k \<noteq> None" by (simp add: map_of_eq_None_iff)
  then have eq: "map fst (dict_set k v d) = map fst d" by (rule keys_dict_set)
  with Cons.prems have "set (map fst other) \<subseteq> set (map fst (dict_set k v d))" by simp
  then have "map fst (fold (\<lambda>(k, v). dict_set k v) other (dict_set k v d)) = map fst (dict_set k v d)"
    by (rule Cons.IH)
  with eq show ?case by (simp add: p)
qed

lemma keys_zero_stats: "map fst zero_stats = stats_keys"
  by (simp add: zero_stats_def stats_keys_def)

lemma keys_sqlite_queries: "map fst (sqlite_queries today rows) = stats_keys"
  by (simp add: sqlite_queries_def stats_keys_def)

lemma keys_pg_queries: "map fst (pg_queries t rows) = stats_keys"
  by (simp add: pg_queries_def stats_keys_def)

lemma keys_get_stats: "map fst (get_stats env st) = stats_keys"
proof -
  define queries where "queries =
            (case PG_CONN st of
               Some c \<Rightarrow> pg_queries (pg_is_today env) (pg_visits st)
             | None \<Rightarrow>
                 (case SQLITE_CONN st of
                    None \<Rightarrow> []
                  | Some c \<Rightarrow> sqlite_queries (date_isoformat (utcnow env)) (sqlite_visits st)))"
  define ran where "ran = (case completed env of None \<Rightarrow> queries | Some k \<Rightarrow> take k queries)"
  have q: "set (map fst queries) \<subseteq> set stats_keys"
    by (cases "PG_CONN st"; cases "SQLITE_CONN st")
      (simp_all add: queries_def keys_pg_queries keys_sqlite_queries)
  have "set ran \<subseteq> set queries"
    by (auto simp: ran_def split: option.splits dest: in_set_takeD)
  then have "set (map fst ran) \<subseteq> set (map fst queries)" by auto
  with q have "set (map fst ran) \<subseteq> set (map fst zero_stats)" by (simp add: keys_zero_stats)
  then have "map fst (dict_update zero_stats ran) = map fst zero_stats" by (rule keys_dict_update)
  moreover have "get_stats env st = dict_update zero_stats ran"
    unfolding get_stats_def Let_def ran_def queries_def by (rule refl)
  ultimately show ?thesis by (simp add: keys_zero_stats)
qed


text \<open>
  C5 (statistics never fail). \<^verbatim>\<open>get_stats\<close> is total: whatever the connections, the rows
  and the statement that raises, it returns a dictionary with exactly the seven counters,
  in this order. When no query completes (the backend cannot be reached when the first
  statement runs), every counter is 0.
\<close>

theorem get_stats_never_fails:
  "map fst (get_stats env st) =
     [''totalEvents'', ''visits'', ''clicks'', ''exits'', ''uniqueSessions'',
      ''visitsToday'', ''clicksToday'']
   \<and> (completed env = Some 0 \<longrightarrow> get_stats env st = zero_stats)"
proof (intro conjI impI)
  show "map fst (get_stats env st) =
     [''totalEvents'', ''visits'', ''clicks'', ''exits'', ''uniqueSessions'',
      ''visitsToday'', ''clicksToday'']"
    using keys_get_stats [of env st] by (simp add: stats_keys_def)
next
  assume "completed env = Some 0"
  then show "get_stats env st = zero_stats"
    by (simp add: get_stats_def Let_def dict_update_def)
qed

theorem get_stats_never_fails_witness:
  "sqlite_visits (write_db no_faults [(''event'', JStr ''visit'')] embedded_state) \<noteq> []
   \<and> get_stats (example_env\<lparr>completed := Some 0\<rparr>)
        (write_db no_faults [(''event'', JStr ''visit'')] embedded_state)
      = [(''totalEvents'', 0), (''visits'', 0), (''clicks'', 0), (''exits'', 0),
         (''uniqueSessions'', 0), (''visitsToday'', 0), (''clicksToday'', 0)]"
  using get_stats_never_fails [of "example_env\<lparr>completed := Some 0\<rparr>"
      "write_db no_faults [(''event'', JStr ''visit'')] embedded_state"]
  by (simp add: zero_stats_def write_db_def enter_def embedded_state_def no_faults_def)

section \<open>Entries\<close>

lemma pad_2: "pad 2 n = [digit_char (n div 10), digit_char n]"
  by (simp add: numeral_2_eq_2)

lemma pad_4:
  "pad 4 n = [digit_char (n div 10 div 10 div 10), digit_char (n div 10 div 10),
              digit_char (n div 10), digit_char n]"
proof -
  have "(4::nat) = Suc (Suc (Suc (Suc 0)))" by simp
  then have "pad 4 n = pad (Suc (Suc (Suc (Suc 0)))) n" by (simp only:)
  then show ?thesis by (simp only: pad.simps append.simps)
qed

lemma pad_6:
  "pad 6 n = [digit_char (n div 10 div 10 div 10 div 10 div 10),
              digit_char (n div 10 div 10 div 10 div 10), digit_char (n div 10 div 10 div 10),
              digit_char (n div 10 div 10), digit_char (n div 10), digit_char n]"
proof -
  have "(6::nat) = Suc (Suc (Suc (Suc (Suc (Suc 0)))))" by simp
  then have "pad 6 n = pad (Suc (Suc (Suc (Suc (Suc (Suc 0)))))) n" by (simp only:)
  then show ?thesis by (simp only: pad.simps append.simps)
qed


lemma example_timestamp: "datetime_isoformat example_now = ''2024-05-07T09:03:01.000042''"
  by (simp add: datetime_isoformat_def date_isoformat_def example_now_def digit_char_def
      pad_2 pad_4 pad_6)

lemma length_date_isoformat: "length (date_isoformat d) = 10"
  by (simp add: date_isoformat_def pad_2 pad_4)


lemma map_of_merge:
  "map_of (case payload of JObj items \<Rightarrow> dict_update base items | _ \<Rightarrow> base)
     = map_of base ++ supplied payload"
  by (cases payload) (simp_all add: supplied_def map_of_dict_update fun_eq_iff map_add_def)

lemma map_of_three_defaults:
  "map_of (setdefault ''userAgent'' (JStr [])
             (setdefault ''referrer'' (JStr []) (setdefault ''path'' (JStr []) e))) k
     = (case map_of e k of
          Some v \<Rightarrow> Some v
        | None \<Rightarrow> map_of [(''path'', JStr []), (''referrer'', JStr []), (''userAgent'', JStr [])] k)"
  by (simp add: map_of_setdefault split: option.splits)

lemma map_of_visit_post_entry:
  "map_of (visit_post_entry now rq) k =
     (case supplied (app_payload (app_body rq)) k of
        Some v \<Rightarrow> Some v
      | None \<Rightarrow>
          map_of (post_defaults (datetime_isoformat now @ ''Z'') ''POST'' (app_peer rq)
                    (app_url_path rq)) k)"
  unfolding visit_post_entry_def Let_def
  by (simp add: map_of_three_defaults map_of_merge map_add_def post_defaults_def app_peer_def
      split: option.splits)

lemma map_of_do_POST_entry:
  "map_of (do_POST_entry now rq payload ip) k =
     (case supplied payload k of
        Some v \<Rightarrow> Some v
      | None \<Rightarrow> map_of (post_defaults (datetime_isoformat now @ ''Z'') ''POST'' ip (req_path rq)) k)"
  unfolding do_POST_entry_def Let_def
  by (simp add: map_of_three_defaults map_of_merge map_add_def post_defaults_def
      split: option.splits)

lemma calls_write_db: "calls (write_db f e st) = calls st @ [(StorageSink, e)]"
  by (cases "PG_CONN st"; cases "SQLITE_CONN st") (simp_all add: write_db_def enter_def Let_def)

lemma calls_server_send: "calls (server_send_to_logtail f e st) = calls st @ [(RemoteSink, e)]"
  by (simp add: server_send_to_logtail_def enter_def Let_def)

lemma calls_persist:
  "calls (persist f e st) = calls st @ [(RemoteSink, e), (FileSink, e), (StorageSink, e)]"
  by (simp add: persist_def calls_write_db app_append_file_def app_send_to_logtail_def enter_def
      Let_def)

lemma calls_server_sinks:
  "calls (snd (server_sinks f e st)) =
     calls st @ (if file_raises f then [(RemoteSink, e), (FileSink, e)]
                 else [(RemoteSink, e), (FileSink, e), (StorageSink, e)])"
  by (cases "file_raises f")
    (simp_all add: server_sinks_def server_append_file_def enter_def Let_def calls_write_db
      calls_server_send)

lemma do_POST_accepted:
  assumes "req_path rq = ''/api/visit'' \<or> req_path rq = ''/api/log-visit''"
    and "read_length (content_length rq) = Inr n"
    and "server_loads (if n \<noteq> 0 then rfile rq else EmptyBody) = Inr payload"
  shows "do_POST now f rq st =
     server_sinks f
       (do_POST_entry now rq payload (first_forwarded (x_forwarded_for rq) (client_address rq))) st"
  using assms by (auto simp: do_POST_def client_ip_first_forwarded Let_def)

lemma do_GET_visit:
  assumes "req_path rq = ''/api/visit'' \<or> req_path rq = ''/api/log-visit''"
  shows "do_GET env f rq st =
     server_sinks f
       (do_GET_entry (utcnow env) rq (first_forwarded (x_forwarded_for rq) (client_address rq))) st"
  using assms by (auto simp: do_GET_def client_ip_first_forwarded)

text \<open>
  C2 as stated fails: \<^verbatim>\<open>entry.update(payload)\<close> runs after the server-set fields are put
  into the entry, so a POST whose JSON object carries \<^verbatim>\<open>ts\<close>, \<^verbatim>\<open>method\<close> or \<^verbatim>\<open>requestPath\<close>
  replaces them, in the entry and in the stored row.
\<close>

theorem caller_fields_replace_server_fields:
  "map_of (visit_post_entry example_now forged_app_post) ''ts''
     = Some (JStr ''1999-01-01T00:00:00Z'')
   \<and> map_of (visit_post_entry example_now forged_app_post) ''method'' = Some (JStr ''GET'')
   \<and> map_of (visit_post_entry example_now forged_app_post) ''requestPath''
       = Some (JStr ''/elsewhere'')
   \<and> map_of (do_POST_entry example_now example_post forged_payload ''1.2.3.4'') ''method''
       = Some (JStr ''GET'')
   \<and> map col_method
        (sqlite_visits (snd (visit_post example_now no_faults forged_app_post embedded_state)))
       = [JStr ''GET'']"
  by (simp add: map_of_visit_post_entry map_of_do_POST_entry supplied_def forged_app_post_def
      forged_payload_def app_payload_def visit_post_def persist_def write_db_def
      app_append_file_def app_send_to_logtail_def enter_def embedded_state_def no_faults_def
      row_of_def dict_get_def)

text \<open>
  C2 (server-set fields), as the code has it: \<^verbatim>\<open>ts\<close>, \<^verbatim>\<open>method\<close> and \<^verbatim>\<open>requestPath\<close> are set
  from the transport context. In a GET they always stand. In a POST a key of the same name
  in the JSON-object payload replaces the server-set value, and the server-set value
  stands for every key the payload does not carry.
\<close>

theorem server_fields_stand_unless_supplied:
  "map_of (visit_post_entry now rq) ''ts''
     = Some (case supplied (app_payload (app_body rq)) ''ts'' of
               Some v \<Rightarrow> v | None \<Rightarrow> JStr (datetime_isoformat now @ ''Z''))
   \<and> map_of (visit_post_entry now rq) ''method''
     = Some (case supplied (app_payload (app_body rq)) ''method'' of
               Some v \<Rightarrow> v | None \<Rightarrow> JStr ''POST'')
   \<and> map_of (visit_post_entry now rq) ''requestPath''
     = Some (case supplied (app_payload (app_body rq)) ''requestPath'' of
               Some v \<Rightarrow> v | None \<Rightarrow> JStr (app_url_path rq))
   \<and> map_of (do_POST_entry now srq payload ip) ''ts''
     = Some (case supplied payload ''ts'' of
               Some v \<Rightarrow> v | None \<Rightarrow> JStr (datetime_isoformat now @ ''Z''))
   \<and> map_of (do_POST_entry now srq payload ip) ''method''
     = Some (case supplied payload ''method'' of Some v \<Rightarrow> v | None \<Rightarrow> JStr ''POST'')
   \<and> map_of (do_POST_entry now srq payload ip) ''requestPath''
     = Some (case supplied payload ''requestPath'' of
               Some v \<Rightarrow> v | None \<Rightarrow> JStr (req_path srq))
   \<and> map_of (visit_get_entry now rq) ''ts'' = Some (JStr (datetime_isoformat now @ ''Z''))
   \<and> map_of (visit_get_entry now rq) ''method'' = Some (JStr ''GET'')
   \<and> map_of (visit_get_entry now rq) ''requestPath'' = Some (JStr (app_url_path rq))
   \<and> map_of (do_GET_entry now srq ip) ''ts'' = Some (JStr (datetime_isoformat now @ ''Z''))
   \<and> map_of (do_GET_entry now srq ip) ''method'' = Some (JStr ''GET'')
   \<and> map_of (do_GET_entry now srq ip) ''requestPath'' = Some (JStr (req_path srq))"
  by (intro conjI)
    (simp_all add: map_of_visit_post_entry map_of_do_POST_entry post_defaults_def
      visit_get_entry_def do_GET_entry_def split: option.splits)

section \<open>Defaults of absent fields\<close>

lemma row_column_lookup:
  "k \<in> set column_names \<Longrightarrow>
     map_of (row_columns (row_of e)) k = Some (dict_get e k (column_default k))"
  by (auto simp: column_names_def row_columns_def row_of_def column_default_def)

lemma example_app_post_entry:
  "visit_post_entry example_now example_app_post =
     [(''ts'', JStr ''2024-05-07T09:03:01.000042Z''), (''method'', JStr ''POST''),
      (''ip'', JStr ''10.0.0.1''), (''requestPath'', JStr ''/api/visit''),
      (''path'', JStr []), (''referrer'', JStr []), (''userAgent'', JStr [])]"
  by (simp add: visit_post_entry_def example_app_post_def app_payload_def dict_update_def
      setdefault_def example_timestamp)

text \<open>
  C6 as stated fails: for the POST body \<^verbatim>\<open>{}\<close> the entry that the remote and the file sink
  receive has seven keys; \<^verbatim>\<open>sessionStarted\<close> (like \<^verbatim>\<open>event\<close>, \<^verbatim>\<open>sessionId\<close> and \<^verbatim>\<open>utm\<close>) is
  not among them, so the line written to the log file has no such field.
\<close>

theorem empty_post_leaves_session_fields_unset:
  "visit_post_entry example_now example_app_post =
     [(''ts'', JStr ''2024-05-07T09:03:01.000042Z''), (''method'', JStr ''POST''),
      (''ip'', JStr ''10.0.0.1''), (''requestPath'', JStr ''/api/visit''),
      (''path'', JStr []), (''referrer'', JStr []), (''userAgent'', JStr [])]
   \<and> map_of (visit_post_entry example_now example_app_post) ''sessionStarted'' = None
   \<and> log_file (snd (visit_post example_now no_faults example_app_post embedded_state)) =
       [Dumps False
         [(''ts'', JStr ''2024-05-07T09:03:01.000042Z''), (''method'', JStr ''POST''),
          (''ip'', JStr ''10.0.0.1''), (''requestPath'', JStr ''/api/visit''),
          (''path'', JStr []), (''referrer'', JStr []), (''userAgent'', JStr [])]]"
  by (simp add: example_app_post_entry visit_post_def persist_def write_db_def
      app_append_file_def app_send_to_logtail_def enter_def embedded_state_def no_faults_def)

lemma post_defaults_display:
  "k \<in> {''path'', ''referrer'', ''userAgent''} \<Longrightarrow> map_of (post_defaults t m i r) k = Some (JStr [])"
  by (auto simp: post_defaults_def)

lemma post_defaults_session:
  "k \<in> {''event'', ''sessionId'', ''utm'', ''sessionStarted''} \<Longrightarrow>
     map_of (post_defaults t m i r) k = None"
  by (auto simp: post_defaults_def)

lemma session_keys_columns:
  "k \<in> {''event'', ''sessionId'', ''utm'', ''sessionStarted''} \<Longrightarrow> k \<in> set column_names"
  by (auto simp: column_names_def)

lemma visit_post_entry_display:
  assumes "k \<in> {''path'', ''referrer'', ''userAgent''}"
  shows "map_of (visit_post_entry now rq) k =
     Some (case supplied (app_payload (app_body rq)) k of Some v \<Rightarrow> v | None \<Rightarrow> JStr [])"
  by (simp add: map_of_visit_post_entry post_defaults_display [OF assms] split: option.splits)

lemma do_POST_entry_display:
  assumes "k \<in> {''path'', ''referrer'', ''userAgent''}"
  shows "map_of (do_POST_entry now srq payload ip) k =
     Some (case supplied payload k of Some v \<Rightarrow> v | None \<Rightarrow> JStr [])"
  by (simp add: map_of_do_POST_entry post_defaults_display [OF assms] split: option.splits)

lemma visit_post_entry_session:
  assumes "k \<in> {''event'', ''sessionId'', ''utm'', ''sessionStarted''}"
  shows "map_of (visit_post_entry now rq) k = supplied (app_payload (app_body rq)) k"
  by (simp add: map_of_visit_post_entry post_defaults_session [OF assms] split: option.splits)

lemma do_POST_entry_session:
  assumes "k \<in> {''event'', ''sessionId'', ''utm'', ''sessionStarted''}"
  shows "map_of (do_POST_entry now srq payload ip) k = supplied payload k"
  by (simp add: map_of_do_POST_entry post_defaults_session [OF assms] split: option.splits)

lemma visit_post_row_session:
  assumes "k \<in> {''event'', ''sessionId'', ''utm'', ''sessionStarted''}"
  shows "map_of (row_columns (row_of (visit_post_entry now rq))) k =
     Some (case supplied (app_payload (app_body rq)) k of
             Some v \<Rightarrow> v | None \<Rightarrow> column_default k)"
  by (simp add: row_column_lookup [OF session_keys_columns [OF assms]] dict_get_def
      visit_post_entry_session [OF assms] split: option.splits)

lemma do_POST_row_session:
  assumes "k \<in> {''event'', ''sessionId'', ''utm'', ''sessionStarted''}"
  shows "map_of (row_columns (row_of (do_POST_entry now srq payload ip))) k =
     Some (case supplied payload k of Some v \<Rightarrow> v | None \<Rightarrow> column_default k)"
  by (simp add: row_column_lookup [OF session_keys_columns [OF assms]] dict_get_def
      do_POST_entry_session [OF assms] split: option.splits)

lemma get_entry_fields:
  "\<forall>(k, p) \<in> set get_fields.
     map_of (visit_get_entry now rq) k =
       Some (JStr (case map_of (app_query rq) p of Some v \<Rightarrow> v | None \<Rightarrow> []))
     \<and> map_of (do_GET_entry now srq ip) k =
       Some (JStr (case map_of (req_query srq) p of Some (v, vs) \<Rightarrow> v | None \<Rightarrow> []))"
  by (simp add: get_fields_def visit_get_entry_def do_GET_entry_def dict_get_def
      split: option.splits)

text \<open>
  C6 (defaults), as the code has it. In a POST entry \<^verbatim>\<open>path\<close>, \<^verbatim>\<open>referrer\<close> and \<^verbatim>\<open>userAgent\<close>
  are always present (\<^verbatim>\<open>""\<close> unless the payload supplies them); \<^verbatim>\<open>event\<close>, \<^verbatim>\<open>sessionId\<close>,
  \<^verbatim>\<open>utm\<close> and \<^verbatim>\<open>sessionStarted\<close> are in the entry only if the payload supplies them, and get
  their defaults (\<^verbatim>\<open>""\<close>, 0) in the storage row only. A GET entry has exactly the ten keys
  below: each of its six caller fields is the text of its query parameter, \<^verbatim>\<open>""\<close> when the
  parameter is absent; \<^verbatim>\<open>sessionStarted\<close> is never in a GET entry and is 0 in its storage
  row. Every sink that is entered is given the same entry.
\<close>

theorem post_entry_defaults:
  "(\<forall>k \<in> {''path'', ''referrer'', ''userAgent''}.
      map_of (visit_post_entry now rq) k =
        Some (case supplied (app_payload (app_body rq)) k of Some v \<Rightarrow> v | None \<Rightarrow> JStr [])
      \<and> map_of (do_POST_entry now srq payload ip) k =
        Some (case supplied payload k of Some v \<Rightarrow> v | None \<Rightarrow> JStr []))
   \<and> (\<forall>k \<in> {''event'', ''sessionId'', ''utm'', ''sessionStarted''}.
      map_of (visit_post_entry now rq) k = supplied (app_payload (app_body rq)) k
      \<and> map_of (do_POST_entry now srq payload ip) k = supplied payload k
      \<and> map_of (row_columns (row_of (visit_post_entry now rq))) k =
          Some (case supplied (app_payload (app_body rq)) k of
                  Some v \<Rightarrow> v | None \<Rightarrow> column_default k)
      \<and> map_of (row_columns (row_of (do_POST_entry now srq payload ip))) k =
          Some (case supplied payload k of Some v \<Rightarrow> v | None \<Rightarrow> column_default k))
   \<and> map fst (visit_get_entry now rq) =
       [''ts'', ''method'', ''path'', ''referrer'', ''userAgent'', ''event'', ''sessionId'',
        ''utm'', ''ip'', ''requestPath'']
   \<and> map fst (do_GET_entry now srq ip) =
       [''ts'', ''method'', ''path'', ''referrer'', ''userAgent'', ''event'', ''sessionId'',
        ''utm'', ''ip'', ''requestPath'']
   \<and> (\<forall>(k, p) \<in> set get_fields.
        map_of (visit_get_entry now rq) k =
          Some (JStr (case map_of (app_query rq) p of Some v \<Rightarrow> v | None \<Rightarrow> []))
        \<and> map_of (do_GET_entry now srq ip) k =
          Some (JStr (case map_of (req_query srq) p of Some (v, vs) \<Rightarrow> v | None \<Rightarrow> [])))
   \<and> map_of (visit_get_entry now rq) ''sessionStarted'' = None
   \<and> map_of (do_GET_entry now srq ip) ''sessionStarted'' = None
   \<and> col_sessionStarted (row_of (visit_get_entry now rq)) = JInt 0
   \<and> col_sessionStarted (row_of (do_GET_entry now srq ip)) = JInt 0
   \<and> calls (snd (visit_post now f rq st)) =
       calls st @ [(RemoteSink, visit_post_entry now rq), (FileSink, visit_post_entry now rq),
                   (StorageSink, visit_post_entry now rq)]
   \<and> calls (snd (visit_get now f rq st)) =
       calls st @ [(RemoteSink, visit_get_entry now rq), (FileSink, visit_get_entry now rq),
                   (StorageSink, visit_get_entry now rq)]
   \<and> calls (snd (server_sinks f e st)) =
       calls st @ (if file_raises f then [(RemoteSink, e), (FileSink, e)]
                   else [(RemoteSink, e), (FileSink, e), (StorageSink, e)])"
proof (intro conjI ballI)
  fix k :: string
  assume k: "k \<in> {''path'', ''referrer'', ''userAgent''}"
  show "map_of (visit_post_entry now rq) k =
        Some (case supplied (app_payload (app_body rq)) k of Some v \<Rightarrow> v | None \<Rightarrow> JStr [])"
    by (rule visit_post_entry_display [OF k])
  show "map_of (do_POST_entry now srq payload ip) k =
        Some (case supplied payload k of Some v \<Rightarrow> v | None \<Rightarrow> JStr [])"
    by (rule do_POST_entry_display [OF k])
next
  fix k :: string
  assume k: "k \<in> {''event'', ''sessionId'', ''utm'', ''sessionStarted''}"
  show "map_of (visit_post_entry now rq) k = supplied (app_payload (app_body rq)) k"
    by (rule visit_post_entry_session [OF k])
  show "map_of (do_POST_entry now srq payload ip) k = supplied payload k"
    by (rule do_POST_entry_session [OF k])
  show "map_of (row_columns (row_of (visit_post_entry now rq))) k =
          Some (case supplied (app_payload (app_body rq)) k of
                  Some v \<Rightarrow> v | None \<Rightarrow> column_default k)"
    by (rule visit_post_row_session [OF k])
  show "map_of (row_columns (row_of (do_POST_entry now srq payload ip))) k =
          Some (case supplied payload k of Some v \<Rightarrow> v | None \<Rightarrow> column_default k)"
    by (rule do_POST_row_session [OF k])
next
  show "map fst (visit_get_entry now rq) =
       [''ts'', ''method'', ''path'', ''referrer'', ''userAgent'', ''event'', ''sessionId'',
        ''utm'', ''ip'', ''requestPath'']"
    by (simp add: visit_get_entry_def)
next
  show "map fst (do_GET_entry now srq ip) =
       [''ts'', ''method'', ''path'', ''referrer'', ''userAgent'', ''event'', ''sessionId'',
        ''utm'', ''ip'', ''requestPath'']"
    by (simp add: do_GET_entry_def)
next
  fix x :: "string \<times> string"
  assume "x \<in> set get_fields"
  then show "case x of (k, p) \<Rightarrow>
        map_of (visit_get_entry now rq) k =
          Some (JStr (case map_of (app_query rq) p of Some v \<Rightarrow> v | None \<Rightarrow> []))
        \<and> map_of (do_GET_entry now srq ip) k =
          Some (JStr (case map_of (req_query srq) p of Some (v, vs) \<Rightarrow> v | None \<Rightarrow> []))"
    using get_entry_fields [of now rq srq ip] by blast
next
  show "map_of (visit_get_entry now rq) ''sessionStarted'' = None"
    by (simp add: visit_get_entry_def)
next
  show "map_of (do_GET_entry now srq ip) ''sessionStarted'' = None"
    by (simp add: do_GET_entry_def)
next
  show "col_sessionStarted (row_of (visit_get_entry now rq)) = JInt 0"
    by (simp add: row_of_def dict_get_def visit_get_entry_def)
next
  show "col_sessionStarted (row_of (do_GET_entry now srq ip)) = JInt 0"
    by (simp add: row_of_def dict_get_def do_GET_entry_def)
next
  show "calls (snd (visit_post now f rq st)) =
       calls st @ [(RemoteSink, visit_post_entry now rq), (FileSink, visit_post_entry now rq),
                   (StorageSink, visit_post_entry now rq)]"
    by (simp add: visit_post_def calls_persist)
next
  show "calls (snd (visit_get now f rq st)) =
       calls st @ [(RemoteSink, visit_get_entry now rq), (FileSink, visit_get_entry now rq),
                   (StorageSink, visit_get_entry now rq)]"
    by (simp add: visit_get_def calls_persist)
next
  show "calls (snd (server_sinks f e st)) =
       calls st @ (if file_raises f then [(RemoteSink, e), (FileSink, e)]
                   else [(RemoteSink, e), (FileSink, e), (StorageSink, e)])"
    by (rule calls_server_sinks)
qed


theorem post_entry_defaults_witness:
  "map_of (visit_post_entry example_now example_app_post) ''path'' = Some (JStr [])
   \<and> map_of (visit_post_entry example_now example_app_post) ''referrer'' = Some (JStr [])
   \<and> map_of (visit_post_entry example_now example_app_post) ''userAgent'' = Some (JStr [])
   \<and> map_of (visit_post_entry example_now example_app_post) ''sessionStarted'' = None
   \<and> map_of (row_columns (row_of (visit_post_entry example_now example_app_post)))
        ''sessionStarted'' = Some (JInt 0)
   \<and> map_of (row_columns (row_of (do_POST_entry example_now example_post (JObj []) ''1.2.3.4'')))
        ''event'' = Some (JStr [])
   \<and> map_of (visit_get_entry example_now bare_app_get) ''path'' = Some (JStr [])
   \<and> map_of (visit_get_entry example_now bare_app_get) ''referrer'' = Some (JStr [])
   \<and> map_of (visit_get_entry example_now bare_app_get) ''userAgent'' = Some (JStr [])
   \<and> map_of (visit_get_entry example_now bare_app_get) ''event'' = Some (JStr [])
   \<and> map_of (visit_get_entry example_now bare_app_get) ''sessionId'' = Some (JStr ''s1'')
   \<and> map_of (visit_get_entry example_now bare_app_get) ''utm'' = Some (JStr [])
   \<and> map_of (do_GET_entry example_now example_get ''10.0.0.1'') ''path'' = Some (JStr [])
   \<and> map_of (do_GET_entry example_now example_get ''10.0.0.1'') ''referrer'' = Some (JStr [])
   \<and> map_of (do_GET_entry example_now example_get ''10.0.0.1'') ''userAgent'' = Some (JStr [])
   \<and> map_of (do_GET_entry example_now example_get ''10.0.0.1'') ''event''
        = Some (JStr ''visit'')
   \<and> map_of (do_GET_entry example_now example_get ''10.0.0.1'') ''sessionId'' = Some (JStr [])
   \<and> map_of (do_GET_entry example_now example_get ''10.0.0.1'') ''utm'' = Some (JStr [])"
  using post_entry_defaults [where now = example_now and rq = example_app_post
      and srq = example_post and payload = "JObj []" and ip = "''1.2.3.4''"]
    post_entry_defaults [where now = example_now and rq = bare_app_get
      and srq = example_get and ip = "''10.0.0.1''"]
  by (simp add: supplied_def app_payload_def example_app_post_def column_default_def
      get_fields_def bare_app_get_def example_get_def)

section \<open>Client address\<close>

lemma first_forwarded_example:
  "first_forwarded (Some ''1.2.3.4, 5.6.7.8'') peer = ''1.2.3.4''"
  by (simp add: first_forwarded_def strip_def py_isspace_def)

lemma first_forwarded_absent: "first_forwarded None peer = peer"
  by (simp add: first_forwarded_def strip_def)

lemma first_forwarded_blank: "first_forwarded (Some ''  , 5.6.7.8'') peer = peer"
  by (simp add: first_forwarded_def strip_def py_isspace_def)

text \<open>
  What \<^verbatim>\<open>server.py\<close> does (lines 234 and 287): the address is the first comma-separated
  token of \<^verbatim>\<open>x-forwarded-for\<close>, trimmed, or the peer address when that is empty or the
  header is absent; the index after \<^verbatim>\<open>split\<close> never raises. The GET entry carries it as
  \<^verbatim>\<open>ip\<close>, and so does the POST entry unless the payload has an \<^verbatim>\<open>ip\<close> key of its own, which
  \<^verbatim>\<open>entry.update(payload)\<close> puts in its place.
\<close>

lemma server_resolves_forwarding_header:
  "client_ip xff peer = Inr (first_forwarded xff peer)
   \<and> first_forwarded (Some ''1.2.3.4, 5.6.7.8'') peer = ''1.2.3.4''
   \<and> first_forwarded None peer = peer
   \<and> (req_path srq = ''/api/visit'' \<or> req_path srq = ''/api/log-visit'' \<longrightarrow>
        do_GET env f srq st =
          server_sinks f
            (do_GET_entry (utcnow env) srq
               (first_forwarded (x_forwarded_for srq) (client_address srq))) st)
   \<and> map_of (do_GET_entry now srq ip) ''ip'' = Some (JStr ip)
   \<and> ((req_path srq = ''/api/visit'' \<or> req_path srq = ''/api/log-visit'')
        \<and> read_length (content_length srq) = Inr n
        \<and> server_loads (if n \<noteq> 0 then rfile srq else EmptyBody) = Inr payload \<longrightarrow>
        do_POST now f srq st =
          server_sinks f
            (do_POST_entry now srq payload
               (first_forwarded (x_forwarded_for srq) (client_address srq))) st)
   \<and> map_of (do_POST_entry now srq payload ip) ''ip'' =
        Some (case supplied payload ''ip'' of Some v \<Rightarrow> v | None \<Rightarrow> JStr ip)"
proof (intro conjI impI)
  show "client_ip xff peer = Inr (first_forwarded xff peer)"
    by (rule client_ip_first_forwarded)
  show "first_forwarded (Some ''1.2.3.4, 5.6.7.8'') peer = ''1.2.3.4''"
    by (rule first_forwarded_example)
  show "first_forwarded None peer = peer"
    by (rule first_forwarded_absent)
  show "map_of (do_GET_entry now srq ip) ''ip'' = Some (JStr ip)"
    by (simp add: do_GET_entry_def)
  show "map_of (do_POST_entry now srq payload ip) ''ip'' =
        Some (case supplied payload ''ip'' of Some v \<Rightarrow> v | None \<Rightarrow> JStr ip)"
    by (simp add: map_of_do_POST_entry post_defaults_def split: option.splits)
next
  assume "req_path srq = ''/api/visit'' \<or> req_path srq = ''/api/log-visit''"
  then show "do_GET env f srq st =
          server_sinks f
            (do_GET_entry (utcnow env) srq
               (first_forwarded (x_forwarded_for srq) (client_address srq))) st"
    by (rule do_GET_visit)
next
  assume h: "(req_path srq = ''/api/visit'' \<or> req_path srq = ''/api/log-visit'')
        \<and> read_length (content_length srq) = Inr n
        \<and> server_loads (if n \<noteq> 0 then rfile srq else EmptyBody) = Inr payload"
  show "do_POST now f srq st =
          server_sinks f
            (do_POST_entry now srq payload
               (first_forwarded (x_forwarded_for srq) (client_address srq))) st"
  proof (rule do_POST_accepted)
    show "req_path srq = ''/api/visit'' \<or> req_path srq = ''/api/log-visit''" using h by blast
    show "read_length (content_length srq) = Inr n" using h by blast
    show "server_loads (if n \<noteq> 0 then rfile srq else EmptyBody) = Inr payload"
      using h by blast
  qed
qed

text \<open>What \<^verbatim>\<open>app.py\<close> does (lines 248 and 271): the \<^verbatim>\<open>ip\<close> is the peer host, whatever the headers.\<close>

lemma app_entries_carry_peer:
  "map_of (visit_get_entry now rq) ''ip'' = Some (JStr (app_peer rq))
   \<and> map_of (visit_post_entry now rq) ''ip'' =
        Some (case supplied (app_payload (app_body rq)) ''ip'' of
                Some v \<Rightarrow> v | None \<Rightarrow> JStr (app_peer rq))"
  by (simp add: visit_get_entry_def app_peer_def map_of_visit_post_entry post_defaults_def
      split: option.splits)

lemma server_example_row:
  "map col_ip (sqlite_visits (snd (do_POST example_now no_faults example_post embedded_state)))
     = [JStr ''1.2.3.4'']"
  by (simp add: do_POST_def example_post_def read_length_def server_loads_def
      client_ip_first_forwarded first_forwarded_example server_sinks_def server_append_file_def
      server_send_to_logtail_def write_db_def enter_def embedded_state_def no_faults_def
      Let_def row_of_def dict_get_def map_of_do_POST_entry supplied_def post_defaults_def)

lemma app_example_row:
  "map col_ip
     (sqlite_visits (snd (visit_post example_now no_faults example_app_post embedded_state)))
     = [JStr ''10.0.0.1'']"
  by (simp add: visit_post_def persist_def write_db_def app_append_file_def
      app_send_to_logtail_def enter_def embedded_state_def no_faults_def row_of_def dict_get_def
      example_app_post_entry)

text \<open>
  C7 (client address) fails on \<^verbatim>\<open>app.py\<close>: neither of its handlers reads the forwarding
  header. For a request with the header \<^verbatim>\<open>1.2.3.4, 5.6.7.8\<close> from the peer \<^verbatim>\<open>10.0.0.1\<close> the
  first token, trimmed, is \<^verbatim>\<open>1.2.3.4\<close>, and that is what \<^verbatim>\<open>server.py\<close> stores for the same
  header and peer; the POST entry, the GET entry and the stored row of \<^verbatim>\<open>app.py\<close> carry the
  peer \<^verbatim>\<open>10.0.0.1\<close> instead.
\<close>

theorem app_ignores_forwarding_header:
  "app_forwarded_for example_app_post = Some ''1.2.3.4, 5.6.7.8''
   \<and> app_client example_app_post = Some ''10.0.0.1''
   \<and> first_forwarded (app_forwarded_for example_app_post) (app_peer example_app_post)
       = ''1.2.3.4''
   \<and> x_forwarded_for example_post = app_forwarded_for example_app_post
   \<and> client_address example_post = app_peer example_app_post
   \<and> map col_ip
        (sqlite_visits (snd (do_POST example_now no_faults example_post embedded_state)))
       = [JStr ''1.2.3.4'']
   \<and> map_of (visit_post_entry example_now example_app_post) ''ip'' = Some (JStr ''10.0.0.1'')
   \<and> map_of (visit_get_entry example_now example_app_post) ''ip'' = Some (JStr ''10.0.0.1'')
   \<and> map col_ip
        (sqlite_visits (snd (visit_post example_now no_faults example_app_post embedded_state)))
       = [JStr ''10.0.0.1'']"
proof -
  have "app_forwarded_for example_app_post = Some ''1.2.3.4, 5.6.7.8''"
    and "app_client example_app_post = Some ''10.0.0.1''"
    and "x_forwarded_for example_post = app_forwarded_for example_app_post"
    and "client_address example_post = app_peer example_app_post"
    by (simp_all add: example_app_post_def example_post_def app_peer_def)
  moreover have "first_forwarded (app_forwarded_for example_app_post) (app_peer example_app_post)
       = ''1.2.3.4''"
    by (simp add: example_app_post_def first_forwarded_example)
  moreover have "map_of (visit_post_entry example_now example_app_post) ''ip''
      = Some (JStr ''10.0.0.1'')"
    by (simp add: example_app_post_entry)
  moreover have "map_of (visit_get_entry example_now example_app_post) ''ip''
      = Some (JStr ''10.0.0.1'')"
    by (simp add: visit_get_entry_def example_app_post_def)
  ultimately show ?thesis
    by (simp add: server_example_row app_example_row)
qed

section \<open>Request bodies\<close>

lemma three_defaults_fresh:
  "setdefault ''userAgent'' (JStr [])
     (setdefault ''referrer'' (JStr [])
        (setdefault ''path'' (JStr [])
           [(''ts'', a), (''method'', b), (''ip'', c), (''requestPath'', d)]))
   = [(''ts'', a), (''method'', b), (''ip'', c), (''requestPath'', d),
      (''path'', JStr []), (''referrer'', JStr []), (''userAgent'', JStr [])]"
  by (simp add: setdefault_def)

lemma visit_post_entry_not_object:
  assumes "\<not> is_json_object (app_body rq)"
  shows "visit_post_entry now rq =
     post_defaults (datetime_isoformat now @ ''Z'') ''POST'' (app_peer rq) (app_url_path rq)"
proof -
  have "(case app_payload (app_body rq) of
           JObj items \<Rightarrow> dict_update base items | _ \<Rightarrow> base) = base" for base :: pydict
    using assms
    by (cases "app_body rq"; cases "app_payload (app_body rq)")
      (auto simp: is_json_object_def is_object_def app_payload_def dict_update_def)
  then show ?thesis
    by (simp add: visit_post_entry_def Let_def three_defaults_fresh post_defaults_def
        app_peer_def)
qed

lemma do_POST_entry_not_object:
  assumes "\<not> is_object payload"
  shows "do_POST_entry now srq payload ip =
     post_defaults (datetime_isoformat now @ ''Z'') ''POST'' ip (req_path srq)"
proof -
  have "(case payload of JObj items \<Rightarrow> dict_update base items | _ \<Rightarrow> base) = base"
    for base :: pydict
    using assms by (cases payload) (auto simp: is_object_def)
  then show ?thesis
    by (simp add: do_POST_entry_def Let_def three_defaults_fresh post_defaults_def)
qed

lemma do_POST_invalid_json:
  assumes "req_path srq = ''/api/visit'' \<or> req_path srq = ''/api/log-visit''"
    and "content_length srq = Length n" and "n \<noteq> 0" and "rfile srq = InvalidJson"
  shows "do_POST now f srq st = (Inr (SendError 400 ''Invalid JSON''), st)"
  using assms by (auto simp: do_POST_def read_length_def server_loads_def Let_def)

text \<open>
  A body that is not UTF-8 is not caught by \<^verbatim>\<open>except json.JSONDecodeError\<close> in \<^verbatim>\<open>server.py\<close>:
  the exception of \<^verbatim>\<open>decode\<close> leaves the handler.
\<close>

lemma do_POST_undecodable_body:
  assumes "req_path srq = ''/api/visit'' \<or> req_path srq = ''/api/log-visit''"
    and "content_length srq = Length n" and "n \<noteq> 0" and "rfile srq = InvalidUtf8"
  shows "do_POST now f srq st = (Inl UnicodeDecodeError, st)"
  using assms by (auto simp: do_POST_def read_length_def server_loads_def Let_def)

text \<open>
  C3 as stated fails on \<^verbatim>\<open>server.py\<close>: a POST whose body is text but not JSON is answered
  with \<^verbatim>\<open>400 Invalid JSON\<close> (lines 230-232); the handler returns before any sink is entered,
  so the request is rejected and nothing is stored.
\<close>

theorem server_rejects_unparsable_body:
  "do_POST example_now no_faults (example_post\<lparr>rfile := InvalidJson\<rparr>) embedded_state =
     (Inr (SendError 400 ''Invalid JSON''), embedded_state)"
  by (simp add: do_POST_def example_post_def read_length_def server_loads_def)

text \<open>
  C3 (request bodies), as the code has it. \<^verbatim>\<open>app.py\<close> never raises and never rejects: for
  every body the three sinks are entered with the entry and the response is 204, and when
  the body is not a JSON object (no bytes, not UTF-8, not JSON, or a JSON value of another
  kind) the entry is the server-set fields with \<^verbatim>\<open>path\<close>, \<^verbatim>\<open>referrer\<close> and \<^verbatim>\<open>userAgent\<close> empty.
  \<^verbatim>\<open>server.py\<close> does the same for a JSON body that is not an object, with the resolved
  client address, but answers a non-empty body that is not JSON with \<^verbatim>\<open>400 Invalid JSON\<close>
  and leaves the state as it was.
\<close>

theorem unparsable_body_handling:
  "fst (visit_post now f rq st) = Response 204
   \<and> calls (snd (visit_post now f rq st)) =
       calls st @ [(RemoteSink, visit_post_entry now rq), (FileSink, visit_post_entry now rq),
                   (StorageSink, visit_post_entry now rq)]
   \<and> (\<not> is_json_object (app_body rq) \<longrightarrow>
        visit_post_entry now rq =
          post_defaults (datetime_isoformat now @ ''Z'') ''POST'' (app_peer rq) (app_url_path rq))
   \<and> ((req_path srq = ''/api/visit'' \<or> req_path srq = ''/api/log-visit'')
        \<and> content_length srq = Length n \<and> n \<noteq> 0 \<and> rfile srq = InvalidJson \<longrightarrow>
        do_POST now f srq st = (Inr (SendError 400 ''Invalid JSON''), st))
   \<and> ((req_path srq = ''/api/visit'' \<or> req_path srq = ''/api/log-visit'')
        \<and> content_length srq = Length n \<and> n \<noteq> 0 \<and> rfile srq = JsonBody v
        \<and> \<not> is_object v \<longrightarrow>
        do_POST now f srq st =
          server_sinks f
            (post_defaults (datetime_isoformat now @ ''Z'') ''POST''
               (first_forwarded (x_forwarded_for srq) (client_address srq)) (req_path srq)) st)"
proof (intro conjI impI)
  show "fst (visit_post now f rq st) = Response 204"
    by (simp add: visit_post_def)
  show "calls (snd (visit_post now f rq st)) =
       calls st @ [(RemoteSink, visit_post_entry now rq), (FileSink, visit_post_entry now rq),
                   (StorageSink, visit_post_entry now rq)]"
    by (simp add: visit_post_def calls_persist)
next
  assume "\<not> is_json_object (app_body rq)"
  then show "visit_post_entry now rq =
          post_defaults (datetime_isoformat now @ ''Z'') ''POST'' (app_peer rq) (app_url_path rq)"
    by (rule visit_post_entry_not_object)
next
  assume h: "(req_path srq = ''/api/visit'' \<or> req_path srq = ''/api/log-visit'')
        \<and> content_length srq = Length n \<and> n \<noteq> 0 \<and> rfile srq = InvalidJson"
  show "do_POST now f srq st = (Inr (SendError 400 ''Invalid JSON''), st)"
  proof (rule do_POST_invalid_json)
    show "req_path srq = ''/api/visit'' \<or> req_path srq = ''/api/log-visit''" using h by blast
    show "content_length srq = Length n" using h by blast
    show "n \<noteq> 0" using h by blast
    show "rfile srq = InvalidJson" using h by blast
  qed
next
  assume h: "(req_path srq = ''/api/visit'' \<or> req_path srq = ''/api/log-visit'')
        \<and> content_length srq = Length n \<and> n \<noteq> 0 \<and> rfile srq = JsonBody v
        \<and> \<not> is_object v"
  have "do_POST now f srq st =
      server_sinks f
        (do_POST_entry now srq v (first_forwarded (x_forwarded_for srq) (client_address srq))) st"
  proof (rule do_POST_accepted)
    show "req_path srq = ''/api/visit'' \<or> req_path srq = ''/api/log-visit''" using h by blast
    show "read_length (content_length srq) = Inr n" using h by (simp add: read_length_def)
    show "server_loads (if n \<noteq> 0 then rfile srq else EmptyBody) = Inr v"
      using h by (simp add: server_loads_def)
  qed
  moreover have "\<not> is_object v" using h by blast
  ultimately show "do_POST now f srq st =
          server_sinks f
            (post_defaults (datetime_isoformat now @ ''Z'') ''POST''
               (first_forwarded (x_forwarded_for srq) (client_address srq)) (req_path srq)) st"
    by (simp add: do_POST_entry_not_object)
qed

theorem unparsable_body_handling_witness:
  "visit_post_entry example_now (example_app_post\<lparr>app_body := InvalidJson\<rparr>) =
     [(''ts'', JStr ''2024-05-07T09:03:01.000042Z''), (''method'', JStr ''POST''),
      (''ip'', JStr ''10.0.0.1''), (''requestPath'', JStr ''/api/visit''),
      (''path'', JStr []), (''referrer'', JStr []), (''userAgent'', JStr [])]
   \<and> do_POST example_now no_faults (example_post\<lparr>rfile := InvalidJson\<rparr>) embedded_state =
       (Inr (SendError 400 ''Invalid JSON''), embedded_state)
   \<and> do_POST example_now no_faults (example_post\<lparr>rfile := JsonBody (JStr ''not-json'')\<rparr>)
        embedded_state =
       server_sinks no_faults
         [(''ts'', JStr ''2024-05-07T09:03:01.000042Z''), (''method'', JStr ''POST''),
          (''ip'', JStr ''1.2.3.4''), (''requestPath'', JStr ''/api/visit''),
          (''path'', JStr []), (''referrer'', JStr []), (''userAgent'', JStr [])]
         embedded_state"
  using unparsable_body_handling [where now = example_now
      and rq = "example_app_post\<lparr>app_body := InvalidJson\<rparr>"
      and srq = "example_post\<lparr>rfile := InvalidJson\<rparr>" and n = 2
      and f = no_faults and st = embedded_state]
    unparsable_body_handling [where now = example_now
      and srq = "example_post\<lparr>rfile := JsonBody (JStr ''not-json'')\<rparr>" and n = 2
      and v = "JStr ''not-json''" and f = no_faults and st = embedded_state]
  by (simp add: example_app_post_def example_post_def is_json_object_def is_object_def
      post_defaults_def app_peer_def example_timestamp first_forwarded_example)

section \<open>The six-event example\<close>

lemma dict_update_zero_sqlite:
  "dict_update zero_stats (sqlite_queries today rows) = sqlite_queries today rows"
  by (simp add: zero_stats_def sqlite_queries_def dict_update_def)

lemma like_prefix_ts_date:
  "length today = 10 \<Longrightarrow> like_prefix today (col_ts r) = (ts_date r = Some today)"
  by (cases "col_ts r") (auto simp: like_prefix_def ts_date_def)

lemma count_distinct_two:
  assumes "set (map col rows) = {JStr a, JStr b}" and "a \<noteq> b"
  shows "count_distinct col rows = 2"
proof -
  have "set (filter (\<lambda>v. v \<noteq> JNull) (map col rows)) = {JStr a, JStr b}"
    using assms(1) by auto
  then have "card (set (filter (\<lambda>v. v \<noteq> JNull) (map col rows))) = 2"
    using assms(2) by simp
  then show ?thesis
    by (simp add: count_distinct_def length_remdups_card_conv)
qed

lemma event_is_kind: "event_is kind = (\<lambda>r. col_event r = JStr kind)"
  by (simp add: fun_eq_iff event_is_def)

lemma get_stats_sqlite:
  assumes "PG_CONN st = None" and "SQLITE_CONN st = Some c" and "completed env = None"
  shows "get_stats env st = sqlite_queries (date_isoformat (utcnow env)) (sqlite_visits st)"
  using assms by (simp add: get_stats_def Let_def dict_update_zero_sqlite)

lemma handle_AppGet_store:
  assumes "PG_CONN st = None" and "SQLITE_CONN st = Some c"
  shows "sqlite_visits (handle (AppGet now no_faults rq) st) =
     sqlite_visits st @ [row_of (visit_get_entry now rq)]"
  using assms
  by (simp add: visit_get_def persist_def write_db_def app_append_file_def
      app_send_to_logtail_def enter_def no_faults_def Let_def)

lemma stored_get_event:
  "col_event (row_of (visit_get_entry now (get_request ev sid))) = JStr ev"
  "col_sessionId (row_of (visit_get_entry now (get_request ev sid))) = JStr sid"
  by (simp_all add: row_of_def visit_get_entry_def get_request_def dict_get_def)

lemma stored_get_date:
  "ts_date (row_of (visit_get_entry now rq)) = Some (date_isoformat now)"
proof -
  have "take 10 (date_isoformat now @ rest) = date_isoformat now" for rest
    using length_date_isoformat [of now] by simp
  then show ?thesis
    by (simp add: ts_date_def row_of_def visit_get_entry_def dict_get_def datetime_isoformat_def)
qed

lemma example_dates:
  "date_isoformat example_now = ''2024-05-07''" "date_isoformat day_before = ''2024-05-06''"
  by (simp_all add: date_isoformat_def example_now_def day_before_def digit_char_def pad_2 pad_4)

lemma six_events_rows:
  "sqlite_visits (run six_events embedded_state) =
     [row_of (visit_get_entry example_now (get_request ''visit'' ''s1'')),
      row_of (visit_get_entry day_before (get_request ''visit'' ''s1'')),
      row_of (visit_get_entry day_before (get_request ''visit'' ''s2'')),
      row_of (visit_get_entry day_before (get_request ''click'' ''s1'')),
      row_of (visit_get_entry day_before (get_request ''click'' ''s2'')),
      row_of (visit_get_entry example_now (get_request ''exit'' ''s2''))]"
proof -
  have a: "PG_CONN embedded_state = None" "SQLITE_CONN embedded_state = Some SqliteConn"
    "sqlite_visits embedded_state = []"
    by (simp_all add: embedded_state_def)
  show ?thesis
    unfolding run_def six_events_def
    by (simp only: fold_simps o_apply id_apply handle_AppGet_store [where c = SqliteConn]
        handle_conns a append.simps)
qed

text \<open>
  C8 (statistics of six events). With the embedded backend active and every query
  completing, for a store of exactly six rows, three with event \<^verbatim>\<open>visit\<close> of which exactly
  one has a timestamp whose date is the UTC date of the clock, two with event \<^verbatim>\<open>click\<close> of
  which none is dated today, one with event \<^verbatim>\<open>exit\<close>, and session identifiers that are
  exactly two distinct texts, \<^verbatim>\<open>get_stats\<close> returns 6, 3, 2, 1, 2, 1, 0 for the seven counters.
\<close>

theorem six_event_statistics:
  assumes "PG_CONN st = None" and "SQLITE_CONN st = Some c" and "completed env = None"
    and "length (sqlite_visits st) = 6"
    and "length (filter (\<lambda>r. col_event r = JStr ''visit'') (sqlite_visits st)) = 3"
    and "length (filter (\<lambda>r. col_event r = JStr ''click'') (sqlite_visits st)) = 2"
    and "length (filter (\<lambda>r. col_event r = JStr ''exit'') (sqlite_visits st)) = 1"
    and "length (filter (\<lambda>r. col_event r = JStr ''visit''
                            \<and> ts_date r = Some (date_isoformat (utcnow env)))
                   (sqlite_visits st)) = 1"
    and "length (filter (\<lambda>r. col_event r = JStr ''click''
                            \<and> ts_date r = Some (date_isoformat (utcnow env)))
                   (sqlite_visits st)) = 0"
    and "set (map col_sessionId (sqlite_visits st)) = {JStr a, JStr b}" and "a \<noteq> b"
  shows "get_stats env st =
     [(''totalEvents'', 6), (''visits'', 3), (''clicks'', 2), (''exits'', 1),
      (''uniqueSessions'', 2), (''visitsToday'', 1), (''clicksToday'', 0)]"
proof -
  let ?today = "date_isoformat (utcnow env)"
  let ?rows = "sqlite_visits st"
  have len: "length ?today = 10" by (rule length_date_isoformat)
  have v: "count_where (event_is ''visit'') ?rows = 3"
    and c: "count_where (event_is ''click'') ?rows = 2"
    and e: "count_where (event_is ''exit'') ?rows = 1"
    using assms(5-7) by (simp_all add: count_where_def event_is_kind)
  have vt: "count_where (\<lambda>r. event_is ''visit'' r \<and> like_prefix ?today (col_ts r)) ?rows = 1"
    using assms(8) by (simp add: count_where_def event_is_def like_prefix_ts_date [OF len])
  have ct: "count_where (\<lambda>r. event_is ''click'' r \<and> like_prefix ?today (col_ts r)) ?rows = 0"
    using assms(9) by (simp add: count_where_def event_is_def like_prefix_ts_date [OF len])
  have u: "count_distinct col_sessionId ?rows = 2"
    using assms(10,11) by (rule count_distinct_two)
  have "get_stats env st = sqlite_queries ?today ?rows"
    using assms(1-3) by (rule get_stats_sqlite)
  then show ?thesis
    unfolding sqlite_queries_def by (simp only: v c e vt ct u assms(4))
qed

theorem six_event_statistics_witness:
  "get_stats example_env (run six_events embedded_state) =
     [(''totalEvents'', 6), (''visits'', 3), (''clicks'', 2), (''exits'', 1),
      (''uniqueSessions'', 2), (''visitsToday'', 1), (''clicksToday'', 0)]"
proof -
  let ?st = "run six_events embedded_state"
  have conns: "PG_CONN ?st = None" "SQLITE_CONN ?st = Some SqliteConn"
    by (simp_all add: run_conns embedded_state_def)
  have env: "completed example_env = None"
    by (simp add: example_env_def)
  have now: "utcnow example_env = example_now"
    by (simp add: example_env_def)
  have counts: "length (sqlite_visits ?st) = 6"
    "length (filter (\<lambda>r. col_event r = JStr ''visit'') (sqlite_visits ?st)) = 3"
    "length (filter (\<lambda>r. col_event r = JStr ''click'') (sqlite_visits ?st)) = 2"
    "length (filter (\<lambda>r. col_event r = JStr ''exit'') (sqlite_visits ?st)) = 1"
    by (simp_all add: six_events_rows stored_get_event)
  have today: "length (filter (\<lambda>r. col_event r = JStr ''visit''
                            \<and> ts_date r = Some (date_isoformat (utcnow example_env)))
                   (sqlite_visits ?st)) = 1"
    "length (filter (\<lambda>r. col_event r = JStr ''click''
                            \<and> ts_date r = Some (date_isoformat (utcnow example_env)))
                   (sqlite_visits ?st)) = 0"
    by (simp_all add: now six_events_rows stored_get_event stored_get_date example_dates)
  have sessions: "set (map col_sessionId (sqlite_visits ?st)) = {JStr ''s1'', JStr ''s2''}"
    by (auto simp: six_events_rows stored_get_event)
  have "''s1'' \<noteq> ''s2''" by simp
  with conns env counts today sessions show ?thesis
    by (rule six_event_statistics)
qed

section \<open>Stored rows\<close>

lemma row_columns_names: "map fst (row_columns r) = column_names"
  by (simp add: row_columns_def column_names_def)









end
